theory Spec2Isabelle
  imports Complex_Main
begin

section \<open>JavaScript numbers\<close>

text \<open>
  The numbers of \<^verbatim>\<open>draw_line.js\<close> are JavaScript numbers, that is binary64 values.
  They are modelled at two levels.

  Where the theorems only say which expression is bound to a uniform, a finite number is
  a \<open>real\<close> and the expression is written with the operations of the reals. A division
  whose divisor is zero gives \<^verbatim>\<open>Infinity\<close>, \<^verbatim>\<open>-Infinity\<close> or \<^verbatim>\<open>NaN\<close> in JavaScript; the
  value \<open>None\<close> of \<open>real option\<close> stands for such a non-finite result. Every expression
  of the source that consumes such a quotient only adds a finite number to it or halves
  it, and each of these keeps a non-finite number non-finite, so \<open>map_option\<close> carries
  \<open>None\<close> through them.
\<close>

definition js_div :: "real \<Rightarrow> real \<Rightarrow> real option" where
  "js_div a b = (if b = 0 then None else Some (a / b))"

text \<open>
  \<^verbatim>\<open>getExtra\<close> is modelled on binary64 itself, since what is said of it is the sign of
  its value and where the value is zero, and both depend on rounding. A number is a finite
  value, one of the two infinities or \<^verbatim>\<open>NaN\<close>. The two zeros are one value here: the sign
  of a zero shows only in a division by it, and the divisors of \<^verbatim>\<open>getExtra\<close> are the
  literals 4 and 2 and \<^verbatim>\<open>topedgelength\<close>, a square root, which is \<^verbatim>\<open>+0\<close> when it is zero.
\<close>

datatype jsnum = Num real | PInf | NInf | NaN

text \<open>
  The arithmetic of the engine. \<open>round64\<close> takes the exact result of an operation on
  finite numbers to the binary64 value the operation returns, an infinity on overflow.
  \<open>math_tan\<close> is \<^verbatim>\<open>Math.tan\<close> on a finite number, which the language leaves to the
  implementation. Both are parameters of the model.
\<close>

record arith =
  round64 :: "real \<Rightarrow> jsnum"
  math_tan :: "real \<Rightarrow> jsnum"

text \<open>The operators \<^verbatim>\<open>+\<close>, \<^verbatim>\<open>-\<close>, \<^verbatim>\<open>*\<close>, \<^verbatim>\<open>/\<close> and \<^verbatim>\<open>Math.sqrt\<close> on numbers.\<close>

fun fl_add :: "arith \<Rightarrow> jsnum \<Rightarrow> jsnum \<Rightarrow> jsnum" where
  "fl_add fp NaN y = NaN"
| "fl_add fp x NaN = NaN"
| "fl_add fp PInf NInf = NaN"
| "fl_add fp NInf PInf = NaN"
| "fl_add fp PInf y = PInf"
| "fl_add fp NInf y = NInf"
| "fl_add fp (Num a) PInf = PInf"
| "fl_add fp (Num a) NInf = NInf"
| "fl_add fp (Num a) (Num b) = round64 fp (a + b)"

fun fl_sub :: "arith \<Rightarrow> jsnum \<Rightarrow> jsnum \<Rightarrow> jsnum" where
  "fl_sub fp NaN y = NaN"
| "fl_sub fp x NaN = NaN"
| "fl_sub fp PInf PInf = NaN"
| "fl_sub fp NInf NInf = NaN"
| "fl_sub fp PInf y = PInf"
| "fl_sub fp NInf y = NInf"
| "fl_sub fp (Num a) PInf = NInf"
| "fl_sub fp (Num a) NInf = PInf"
| "fl_sub fp (Num a) (Num b) = round64 fp (a - b)"

text \<open>An infinity with the sign of a product or quotient; \<open>neg\<close> says the finite factor
  is negative.\<close>

definition signed_inf :: "bool \<Rightarrow> jsnum \<Rightarrow> jsnum" where
  "signed_inf neg x =
     (if neg then (case x of PInf \<Rightarrow> NInf | NInf \<Rightarrow> PInf | y \<Rightarrow> y) else x)"

fun fl_mul :: "arith \<Rightarrow> jsnum \<Rightarrow> jsnum \<Rightarrow> jsnum" where
  "fl_mul fp NaN y = NaN"
| "fl_mul fp x NaN = NaN"
| "fl_mul fp (Num a) (Num b) = round64 fp (a * b)"
| "fl_mul fp (Num a) y = (if a = 0 then NaN else signed_inf (a < 0) y)"
| "fl_mul fp x (Num b) = (if b = 0 then NaN else signed_inf (b < 0) x)"
| "fl_mul fp PInf y = y"
| "fl_mul fp NInf y = signed_inf True y"

fun fl_div :: "arith \<Rightarrow> jsnum \<Rightarrow> jsnum \<Rightarrow> jsnum" where
  "fl_div fp NaN y = NaN"
| "fl_div fp x NaN = NaN"
| "fl_div fp (Num a) (Num b) =
     (if b = 0 then (if a = 0 then NaN else if 0 < a then PInf else NInf)
      else round64 fp (a / b))"
| "fl_div fp (Num a) y = Num 0"
| "fl_div fp x (Num b) = signed_inf (b < 0) x"
| "fl_div fp x y = NaN"

fun fl_sqrt :: "arith \<Rightarrow> jsnum \<Rightarrow> jsnum" where
  "fl_sqrt fp NaN = NaN"
| "fl_sqrt fp PInf = PInf"
| "fl_sqrt fp NInf = NaN"
| "fl_sqrt fp (Num a) = (if a < 0 then NaN else round64 fp (sqrt a))"

text \<open>The order of the numbers; \<^verbatim>\<open>NaN\<close> is below and above nothing.\<close>

fun js_le :: "jsnum \<Rightarrow> jsnum \<Rightarrow> bool" where
  "js_le NaN y = False"
| "js_le x NaN = False"
| "js_le NInf y = True"
| "js_le x PInf = True"
| "js_le (Num a) (Num b) = (a \<le> b)"
| "js_le x y = False"


text \<open>
  What the theorems on \<^verbatim>\<open>getExtra\<close> take from binary64 rounding to nearest: 0 and 1 are
  binary64 values, a rounded result is a number and a binary64 value, and rounding keeps
  the order.
\<close>

definition ieee_rounding :: "arith \<Rightarrow> bool" where
  "ieee_rounding fp =
     (round64 fp 0 = Num 0 \<and> round64 fp 1 = Num 1
      \<and> (\<forall>a. round64 fp a \<noteq> NaN)
      \<and> (\<forall>a b. round64 fp a = Num b \<longrightarrow> round64 fp b = Num b)
      \<and> (\<forall>a b. a \<le> b \<longrightarrow> js_le (round64 fp a) (round64 fp b)))"


section \<open>The transform and \<^verbatim>\<open>getExtra\<close>\<close>

text \<open>The fields of \<^verbatim>\<open>painter.transform\<close> that \<^verbatim>\<open>draw_line.js\<close> reads
  (\<open>pitch\<close> is the field \<^verbatim>\<open>_pitch\<close>); they hold finite numbers.\<close>

record transform =
  height :: real
  altitude :: real
  pitch :: real
  angle :: real
  zoom :: real
  tileZoom :: real

text \<open>
  \<^verbatim>\<open>
  function getExtra(transform) {
      var topedgelength = Math.sqrt(transform.height * transform.height / 4
                                    * (1 + transform.altitude * transform.altitude));
      var x = transform.height / 2 * Math.tan(transform._pitch);
      return (topedgelength + x) / topedgelength - 1;
  }
  \<close>
  The two variables are definitions of their own, so that theorems can speak of them.
\<close>

definition topedgelength :: "arith \<Rightarrow> transform \<Rightarrow> jsnum" where
  "topedgelength fp tr =
     fl_sqrt fp
       (fl_mul fp
          (fl_div fp (fl_mul fp (Num (height tr)) (Num (height tr))) (Num 4))
          (fl_add fp (Num 1) (fl_mul fp (Num (altitude tr)) (Num (altitude tr)))))"

definition getExtra_x :: "arith \<Rightarrow> transform \<Rightarrow> jsnum" where
  "getExtra_x fp tr =
     fl_mul fp (fl_div fp (Num (height tr)) (Num 2)) (math_tan fp (pitch tr))"

definition getExtra :: "arith \<Rightarrow> transform \<Rightarrow> jsnum" where
  "getExtra fp tr =
     fl_sub fp
       (fl_div fp (fl_add fp (topedgelength fp tr) (getExtra_x fp tr)) (topedgelength fp tr))
       (Num 1)"

section \<open>The data \<^verbatim>\<open>drawLine\<close> reads\<close>

text \<open>
  The value of \<^verbatim>\<open>layer.paint['line-dasharray']\<close>: the two dash patterns of a
  cross-fade (arrays of numbers), their scale factors and the fade fraction.
\<close>

record dasharray =
  dash_from :: "real list"
  dash_to :: "real list"
  dash_fromScale :: real
  dash_toScale :: real
  dash_t :: real

text \<open>The value of \<^verbatim>\<open>layer.paint['line-pattern']\<close>: two sprite names instead.\<close>

record pattern =
  image_from :: string
  image_to :: string
  image_fromScale :: real
  image_toScale :: real
  image_t :: real

text \<open>
  The paint properties. \<^verbatim>\<open>line-dasharray\<close> and \<^verbatim>\<open>line-pattern\<close> are an object or
  \<^verbatim>\<open>undefined\<close>; an object is truthy, so the tests \<^verbatim>\<open>if (layer.paint['line-dasharray'])\<close>
  and \<^verbatim>\<open>if (layer.paint['line-pattern'])\<close> are \<open>\<noteq> None\<close>.
\<close>

record paint =
  line_width :: real
  line_blur :: real
  line_opacity :: real
  line_offset :: real
  line_gap_width :: real
  line_dasharray :: "dasharray option"
  line_pattern :: "pattern option"
  line_translate :: "real \<times> real"
  line_translate_anchor :: string

record layer =
  layer_id :: string
  layer_paint :: paint
  layout_line_cap :: string

text \<open>What \<^verbatim>\<open>lineAtlas.getDash\<close> returns, and what \<^verbatim>\<open>spriteAtlas.getPosition\<close> returns.\<close>

record dashPos =
  dash_y :: real
  dash_height :: real
  dash_width :: real

record imagePos =
  pos_tl :: "real \<times> real"
  pos_br :: "real \<times> real"
  pos_size :: "real \<times> real"

text \<open>
  \<^verbatim>\<open>bucket.paintAttributes.line[layer.id]\<close>: the defines and pragmas handed to
  \<^verbatim>\<open>painter.useProgram\<close>.
\<close>

record programOptions =
  opt_defines :: "string list"
  opt_vertexPragmas :: "string list"
  opt_fragmentPragmas :: "string list"

text \<open>
  \<^verbatim>\<open>painter.useProgram(name, defines, vertexPragmas, fragmentPragmas)\<close> returns the
  program object; it is identified by the arguments of the call.
\<close>

record program =
  prog_name :: string
  prog_options :: programOptions

text \<open>A value bound to a uniform: a number, a pair of numbers, or a number of the
  binary64 model.\<close>

datatype uval = UNum "real option" | UVec2 "real option" "real option" | UDouble jsnum

type_synonym uniforms = "(string \<times> uval) list"

text \<open>
  A buffer group: its index stands for the layout vertex buffer, the element buffer, the
  paint vertex buffer and the vertex array object of the layer; of the element buffer the
  code reads the length.
\<close>

record bufferGroup =
  group_id :: nat
  elementBuffer_length :: nat

text \<open>
  A bucket. \<open>bufferGroups_line\<close> is \<^verbatim>\<open>bucket.bufferGroups.line\<close>, an array or
  \<^verbatim>\<open>undefined\<close>. \<open>paintAttributes_line\<close> is \<^verbatim>\<open>bucket.paintAttributes.line\<close>, by layer
  id; a bucket holds one descriptor for each of its layers, and likewise each group one
  vertex array object and one paint buffer, so these lookups are total here.
  \<open>getUniforms\<close> is \<^verbatim>\<open>bucket.getUniforms('line', program, layer, {zoom: z})\<close>.
\<close>

record bucket =
  bufferGroups_line :: "bufferGroup list option"
  paintAttributes_line :: "string \<Rightarrow> programOptions"
  getUniforms :: "program \<Rightarrow> layer \<Rightarrow> real \<Rightarrow> uniforms"

record tile =
  tile_id :: nat
  getBucket :: "layer \<Rightarrow> bucket option"

record coord =
  coord_id :: nat
  posMatrix :: "real list"

text \<open>
  The matrix built with \<^verbatim>\<open>gl-matrix\<close>, kept as the sequence of library calls that builds
  it (the library stores single-precision numbers).
\<close>

datatype mat2 = Mat2_create | Mat2_scale mat2 "real \<times> real" | Mat2_rotate mat2 real

text \<open>
  The painter: the fields and collaborators \<^verbatim>\<open>drawLine\<close> reads.
  \<open>lineAtlas_getDash\<close> and \<open>spriteAtlas_getPosition\<close> return \<open>None\<close> for
  \<^verbatim>\<open>null\<close>.
\<close>

record painter =
  isOpaquePass :: bool
  painter_transform :: transform
  lineAtlas_getDash :: "real list \<Rightarrow> bool \<Rightarrow> dashPos option"
  lineAtlas_width :: real
  spriteAtlas_getPosition :: "string \<Rightarrow> bool \<Rightarrow> imagePos option"
  translatePosMatrix :: "real list \<Rightarrow> tile \<Rightarrow> real \<times> real \<Rightarrow> string \<Rightarrow> real list"

text \<open>
  What \<^verbatim>\<open>draw_line.js\<close> takes from outside: the two modules it requires from the
  repository, \<^verbatim>\<open>browser.devicePixelRatio\<close> and the function
  \<^verbatim>\<open>pixelsToTileUnits(tile, pixelValue, z)\<close>, and the arithmetic of the engine. All three
  are parameters of the model.
\<close>

record externals =
  devicePixelRatio :: real
  pixelsToTileUnits :: "tile \<Rightarrow> real \<Rightarrow> real \<Rightarrow> real"
  arithmetic :: arith

section \<open>Calls and errors\<close>

text \<open>
  \<^verbatim>\<open>drawLine\<close> returns nothing; what it does is the sequence of calls it makes on the
  painter and on the GL context. Each function of the model returns the calls it made, in
  order, with its result.
\<close>

datatype call =
    SetDepthSublayer nat
  | DepthMask bool
  | Enable string
  | UseProgram program
  | SetUniforms uniforms
  | Uniform1i program string int
  | ActiveTexture string
  | LineAtlasBind
  | SpriteAtlasBind bool
  | UniformMatrix2fv program string mat2
  | UniformMatrix4fv program string "real list"
  | EnableTileClippingMask coord
  | VaoBind nat string program
  | DrawElements string nat string nat

text \<open>Reading a property of \<^verbatim>\<open>null\<close> or \<^verbatim>\<open>undefined\<close> throws a \<^verbatim>\<open>TypeError\<close>;
  the string names the expression that threw.\<close>

datatype error = TypeError string

section \<open>The three program binders\<close>

text \<open>
  \<^verbatim>\<open>bindLineSDFPatternProgram\<close> (lines 76 to 104). The program is used first; then both
  dash positions are fetched, and \<^verbatim>\<open>posA.width\<close> and \<^verbatim>\<open>posB.width\<close> are read with no
  test on what \<^verbatim>\<open>getDash\<close> returned.
\<close>

definition bindLineSDFPatternProgram ::
  "externals \<Rightarrow> painter \<Rightarrow> layer \<Rightarrow> tile \<Rightarrow> programOptions \<Rightarrow> call list \<times> (error + program)" where
  "bindLineSDFPatternProgram ext painter layer tile programOptions =
     (let program = \<lparr>prog_name = ''linesdfpattern'', prog_options = programOptions\<rparr>;
          used = [UseProgram program]
      in case line_dasharray (layer_paint layer) of
           None \<Rightarrow> (used, Inl (TypeError ''dasharray.from''))
         | Some dasharray \<Rightarrow>
             (let posA = lineAtlas_getDash painter (dash_from dasharray)
                           (layout_line_cap layer = ''round'');
                  posB = lineAtlas_getDash painter (dash_to dasharray)
                           (layout_line_cap layer = ''round'')
              in case posA of
                   None \<Rightarrow> (used, Inl (TypeError ''posA.width''))
                 | Some a \<Rightarrow>
                     (case posB of
                        None \<Rightarrow> (used, Inl (TypeError ''posB.width''))
                      | Some b \<Rightarrow>
                          (let widthA = dash_width a * dash_fromScale dasharray;
                               widthB = dash_width b * dash_toScale dasharray
                           in (used @
                               [SetUniforms
                                  [(''u_tex_y_a'', UNum (Some (dash_y a))),
                                   (''u_tex_y_b'', UNum (Some (dash_y b))),
                                   (''u_mix'', UNum (Some (dash_t dasharray))),
                                   (''u_patternscale_a'',
                                      UVec2 (js_div 1 (pixelsToTileUnits ext tile widthA
                                                         (tileZoom (painter_transform painter))))
                                            (Some (- dash_height a / 2))),
                                   (''u_patternscale_b'',
                                      UVec2 (js_div 1 (pixelsToTileUnits ext tile widthB
                                                         (tileZoom (painter_transform painter))))
                                            (Some (- dash_height b / 2))),
                                   (''u_sdfgamma'',
                                      UNum (map_option (\<lambda>q. q / 2)
                                              (js_div (lineAtlas_width painter)
                                                 (min widthA widthB * 256 * devicePixelRatio ext))))],
                                Uniform1i program ''u_image'' 0,
                                ActiveTexture ''TEXTURE0'',
                                LineAtlasBind],
                               Inr program)))))"

text \<open>
  \<^verbatim>\<open>bindLinePatternProgram\<close> (lines 106 to 140). The program is used first; when either
  sprite position is \<^verbatim>\<open>null\<close> the function returns \<^verbatim>\<open>undefined\<close> (\<open>Inr None\<close>).
\<close>

definition bindLinePatternProgram ::
  "externals \<Rightarrow> painter \<Rightarrow> layer \<Rightarrow> tile \<Rightarrow> programOptions
     \<Rightarrow> call list \<times> (error + program option)" where
  "bindLinePatternProgram ext painter layer tile programOptions =
     (let program = \<lparr>prog_name = ''linepattern'', prog_options = programOptions\<rparr>;
          used = [UseProgram program]
      in case line_pattern (layer_paint layer) of
           None \<Rightarrow> (used, Inl (TypeError ''image.from''))
         | Some image' \<Rightarrow>
             (let imagePosA = spriteAtlas_getPosition painter (image_from image') True;
                  imagePosB = spriteAtlas_getPosition painter (image_to image') True
              in case imagePosA of
                   None \<Rightarrow> (used, Inr None)
                 | Some a \<Rightarrow>
                     (case imagePosB of
                        None \<Rightarrow> (used, Inr None)
                      | Some b \<Rightarrow>
                          (used @
                           [SetUniforms
                              [(''u_pattern_tl_a'', UVec2 (Some (fst (pos_tl a))) (Some (snd (pos_tl a)))),
                               (''u_pattern_br_a'', UVec2 (Some (fst (pos_br a))) (Some (snd (pos_br a)))),
                               (''u_pattern_tl_b'', UVec2 (Some (fst (pos_tl b))) (Some (snd (pos_tl b)))),
                               (''u_pattern_br_b'', UVec2 (Some (fst (pos_br b))) (Some (snd (pos_br b)))),
                               (''u_fade'', UNum (Some (image_t image'))),
                               (''u_pattern_size_a'',
                                  UVec2 (Some (pixelsToTileUnits ext tile
                                                 (fst (pos_size a) * image_fromScale image')
                                                 (tileZoom (painter_transform painter))))
                                        (Some (snd (pos_size b)))),
                               (''u_pattern_size_b'',
                                  UVec2 (Some (pixelsToTileUnits ext tile
                                                 (fst (pos_size b) * image_toScale image')
                                                 (tileZoom (painter_transform painter))))
                                        (Some (snd (pos_size b))))],
                            Uniform1i program ''u_image'' 0,
                            ActiveTexture ''TEXTURE0'',
                            SpriteAtlasBind True],
                           Inr (Some program)))))"

text \<open>\<^verbatim>\<open>bindLineProgram\<close> (lines 142 to 149).\<close>

definition bindLineProgram ::
  "externals \<Rightarrow> painter \<Rightarrow> layer \<Rightarrow> tile \<Rightarrow> programOptions \<Rightarrow> call list \<times> program" where
  "bindLineProgram ext painter layer tile programOptions =
     (let program = \<lparr>prog_name = ''line'', prog_options = programOptions\<rparr>
      in ([UseProgram program], program))"

section \<open>\<^verbatim>\<open>drawLine\<close>\<close>

text \<open>The object literal of lines 51 to 60: the uniforms every variant gets.\<close>

definition sharedUniforms :: "externals \<Rightarrow> painter \<Rightarrow> layer \<Rightarrow> tile \<Rightarrow> uniforms" where
  "sharedUniforms ext painter layer tile =
     [(''u_ratio'', UNum (js_div 1 (pixelsToTileUnits ext tile 1 (zoom (painter_transform painter))))),
      (''u_blur'', UNum (map_option (\<lambda>q. line_blur (layer_paint layer) + q)
                           (js_div 1 (devicePixelRatio ext)))),
      (''u_extra'', UDouble (getExtra (arithmetic ext) (painter_transform painter))),
      (''u_linewidth'', UNum (Some (line_width (layer_paint layer) / 2))),
      (''u_opacity'', UNum (Some (line_opacity (layer_paint layer)))),
      (''u_offset'', UNum (Some (- line_offset (layer_paint layer)))),
      (''u_gapwidth'', UNum (Some (line_gap_width (layer_paint layer) / 2))),
      (''u_antialiasing'', UNum (map_option (\<lambda>q. q / 2) (js_div 1 (devicePixelRatio ext))))]"

text \<open>The inner loop, lines 67 to 71: one bind and one draw call for each group.\<close>

fun drawGroups :: "layer \<Rightarrow> program \<Rightarrow> bufferGroup list \<Rightarrow> call list" where
  "drawGroups layer program [] = []"
| "drawGroups layer program (g # bufferGroups) =
     [VaoBind (group_id g) (layer_id layer) program,
      DrawElements ''TRIANGLES'' (elementBuffer_length g * 3) ''UNSIGNED_SHORT'' 0]
     @ drawGroups layer program bufferGroups"

text \<open>
  The choice of lines 39 to 47. The result is the value of the variable \<^verbatim>\<open>program\<close>:
  a program, or \<open>None\<close> for \<^verbatim>\<open>undefined\<close>.
\<close>

definition bindProgram ::
  "externals \<Rightarrow> painter \<Rightarrow> layer \<Rightarrow> tile \<Rightarrow> programOptions
     \<Rightarrow> call list \<times> (error + program option)" where
  "bindProgram ext painter layer tile programOptions =
     (if line_dasharray (layer_paint layer) \<noteq> None then
        (case bindLineSDFPatternProgram ext painter layer tile programOptions of
           (calls, Inl e) \<Rightarrow> (calls, Inl e)
         | (calls, Inr program) \<Rightarrow> (calls, Inr (Some program)))
      else if line_pattern (layer_paint layer) \<noteq> None then
        bindLinePatternProgram ext painter layer tile programOptions
      else
        (case bindLineProgram ext painter layer tile programOptions of
           (calls, program) \<Rightarrow> (calls, Inr (Some program))))"

text \<open>
  The body of the loop over the coordinates, lines 32 to 71. Nothing tests the variable
  \<^verbatim>\<open>program\<close> before line 61 reads \<^verbatim>\<open>program.u_antialiasingmatrix\<close>. The result is
  the calls made and the exception thrown, if any.
\<close>

definition drawCoord ::
  "externals \<Rightarrow> painter \<Rightarrow> (coord \<Rightarrow> tile) \<Rightarrow> layer \<Rightarrow> mat2 \<Rightarrow> coord
     \<Rightarrow> call list \<times> error option" where
  "drawCoord ext painter source layer antialiasingMatrix coord =
     (let tile = source coord
      in case getBucket tile layer of
           None \<Rightarrow> ([], None)
         | Some bucket \<Rightarrow>
             (case bufferGroups_line bucket of
                None \<Rightarrow> ([], None)
              | Some bufferGroups \<Rightarrow>
                  (let programOptions = paintAttributes_line bucket (layer_id layer)
                   in case bindProgram ext painter layer tile programOptions of
                        (bound, Inl e) \<Rightarrow> (bound, Some e)
                      | (bound, Inr program) \<Rightarrow>
                          (let posMatrix' = translatePosMatrix painter (posMatrix coord) tile
                                              (line_translate (layer_paint layer))
                                              (line_translate_anchor (layer_paint layer));
                               shared = bound @ [SetUniforms (sharedUniforms ext painter layer tile)]
                           in case program of
                                None \<Rightarrow> (shared, Some (TypeError ''program.u_antialiasingmatrix''))
                              | Some prog \<Rightarrow>
                                  (shared @
                                   [UniformMatrix2fv prog ''u_antialiasingmatrix'' antialiasingMatrix,
                                    UniformMatrix4fv prog ''u_matrix'' posMatrix',
                                    SetUniforms (getUniforms bucket prog layer
                                                   (zoom (painter_transform painter))),
                                    EnableTileClippingMask coord]
                                   @ drawGroups layer prog bufferGroups,
                                   None)))))"

text \<open>The loop over the coordinates: an exception ends it.\<close>

fun drawCoords ::
  "externals \<Rightarrow> painter \<Rightarrow> (coord \<Rightarrow> tile) \<Rightarrow> layer \<Rightarrow> mat2 \<Rightarrow> coord list
     \<Rightarrow> call list \<times> error option" where
  "drawCoords ext painter source layer m [] = ([], None)"
| "drawCoords ext painter source layer m (coord # coords) =
     (case drawCoord ext painter source layer m coord of
        (calls, Some e) \<Rightarrow> (calls, Some e)
      | (calls, None) \<Rightarrow>
          (case drawCoords ext painter source layer m coords of
             (calls', r) \<Rightarrow> (calls @ calls', r)))"

text \<open>\<^verbatim>\<open>drawLine(painter, source, layer, coords)\<close>, lines 17 to 73.\<close>

definition drawLine ::
  "externals \<Rightarrow> painter \<Rightarrow> (coord \<Rightarrow> tile) \<Rightarrow> layer \<Rightarrow> coord list \<Rightarrow> call list \<times> error option" where
  "drawLine ext painter source layer coords =
     (if isOpaquePass painter then ([], None)
      else
        (let state = [SetDepthSublayer 0, DepthMask False, Enable ''STENCIL_TEST'']
         in if line_width (layer_paint layer) \<le> 0 then (state, None)
            else
              (let antialiasingMatrix =
                     Mat2_rotate
                       (Mat2_scale Mat2_create (1, cos (pitch (painter_transform painter))))
                       (angle (painter_transform painter))
               in case drawCoords ext painter source layer antialiasingMatrix coords of
                    (calls, r) \<Rightarrow> (state @ calls, r))))"

section \<open>Reading a sequence of calls\<close>

text \<open>The indexed draw calls of a sequence of calls.\<close>

fun is_draw :: "call \<Rightarrow> bool" where
  "is_draw (DrawElements mode n ty off) = True"
| "is_draw c = False"

definition drawCalls :: "call list \<Rightarrow> call list" where
  "drawCalls calls = filter is_draw calls"

text \<open>The names of the programs used, in order.\<close>

fun programsUsed :: "call list \<Rightarrow> string list" where
  "programsUsed [] = []"
| "programsUsed (UseProgram p # calls) = prog_name p # programsUsed calls"
| "programsUsed (c # calls) = programsUsed calls"

text \<open>The uniforms bound through \<^verbatim>\<open>painter.setUniforms\<close>, in order.\<close>

fun uniformsSet :: "call list \<Rightarrow> uniforms" where
  "uniformsSet [] = []"
| "uniformsSet (SetUniforms us # calls) = us @ uniformsSet calls"
| "uniformsSet (c # calls) = uniformsSet calls"

text \<open>The buffer groups \<^verbatim>\<open>drawLine\<close> finds for a coordinate: none when the tile has no
  bucket for the layer or the bucket has no line groups.\<close>

definition lineGroups :: "(coord \<Rightarrow> tile) \<Rightarrow> layer \<Rightarrow> coord \<Rightarrow> bufferGroup list" where
  "lineGroups source layer coord =
     (case getBucket (source coord) layer of
        None \<Rightarrow> []
      | Some bucket \<Rightarrow> (case bufferGroups_line bucket of None \<Rightarrow> [] | Some gs \<Rightarrow> gs))"

definition drawOf :: "bufferGroup \<Rightarrow> call" where
  "drawOf g = DrawElements ''TRIANGLES'' (elementBuffer_length g * 3) ''UNSIGNED_SHORT'' 0"

section \<open>\<^verbatim>\<open>createLayerFamilies\<close> of the benchmark\<close>

text \<open>
  \<^verbatim>\<open>
  var createLayerFamiliesCacheKey;
  var createLayerFamiliesCacheValue;
  function createLayerFamilies(layers) {
      if (layers !== createLayerFamiliesCacheKey) {
          var worker = new Worker({addEventListener: function() {} });
          worker['set layers'](layers);

          createLayerFamiliesCacheKey = layers;
          createLayerFamiliesCacheValue = worker.layerFamilies;
      }
      return createLayerFamiliesCacheValue;
  }
  \<close>
  An array is its reference and its elements; \<^verbatim>\<open>!==\<close> compares the references. The
  class \<^verbatim>\<open>Worker\<close> is outside this file: what \<^verbatim>\<open>worker['set layers']\<close> computes from the
  layers is the parameter \<open>set_layers\<close>, and the \<^verbatim>\<open>layerFamilies\<close> of the \<open>n\<close>-th worker
  constructed is the object numbered \<open>n\<close>. The two module variables and the number of
  workers constructed so far are the state; \<open>None\<close> is \<^verbatim>\<open>undefined\<close>.
\<close>

record 'l layerArray =
  array_ref :: nat
  array_elems :: "'l list"

record 'f families =
  families_ref :: nat
  families_value :: 'f

record 'f bench_state =
  createLayerFamiliesCacheKey :: "nat option"
  createLayerFamiliesCacheValue :: "'f families option"
  workers_constructed :: nat

definition createLayerFamilies ::
  "('l list \<Rightarrow> 'f) \<Rightarrow> 'l layerArray \<Rightarrow> 'f bench_state \<Rightarrow> 'f families option \<times> 'f bench_state" where
  "createLayerFamilies set_layers layers s =
     (let s' =
        (if Some (array_ref layers) \<noteq> createLayerFamiliesCacheKey s then
           (let worker_layerFamilies =
                  \<lparr>families_ref = workers_constructed s,
                   families_value = set_layers (array_elems layers)\<rparr>
            in s\<lparr>workers_constructed := Suc (workers_constructed s),
                 createLayerFamiliesCacheKey := Some (array_ref layers),
                 createLayerFamiliesCacheValue := Some worker_layerFamilies\<rparr>)
         else s)
      in (createLayerFamiliesCacheValue s', s'))"

text \<open>The state when the module is loaded: both variables \<^verbatim>\<open>undefined\<close>.\<close>

definition bench_init :: "'f bench_state" where
  "bench_init =
     \<lparr>createLayerFamiliesCacheKey = None, createLayerFamiliesCacheValue = None,
      workers_constructed = 0\<rparr>"

text \<open>
  The states the module can be in: the two variables are assigned together, and every
  object the cache holds came from a worker constructed before.
\<close>

definition cache_wf :: "'f bench_state \<Rightarrow> bool" where
  "cache_wf s =
     (case createLayerFamiliesCacheValue s of
        None \<Rightarrow> createLayerFamiliesCacheKey s = None
      | Some v \<Rightarrow> families_ref v < workers_constructed s)"

section \<open>Sample inputs\<close>

definition ex_transform :: transform where
  "ex_transform =
     \<lparr>height = 2, altitude = 0, pitch = pi / 4, angle = 0, zoom = 1, tileZoom = 1\<rparr>"

text \<open>An arithmetic that is exact up to the largest binary64 value and overflows beyond it.\<close>

definition ex_arith :: arith where
  "ex_arith =
     \<lparr>round64 = (\<lambda>r. if 2 ^ 1024 \<le> r then PInf else if r \<le> - (2 ^ 1024) then NInf else Num r),
      math_tan = (\<lambda>p. if cos p = 0 then NaN else Num (tan p))\<rparr>"

definition ex_ext :: externals where
  "ex_ext =
     \<lparr>devicePixelRatio = 2, pixelsToTileUnits = (\<lambda>tile pixelValue z. pixelValue * 16),
      arithmetic = ex_arith\<rparr>"

definition ex_paint :: paint where
  "ex_paint =
     \<lparr>line_width = 3, line_blur = 1, line_opacity = 1, line_offset = 0, line_gap_width = 0,
      line_dasharray = None, line_pattern = None, line_translate = (0, 0),
      line_translate_anchor = ''map''\<rparr>"

definition ex_dasharray :: dasharray where
  "ex_dasharray =
     \<lparr>dash_from = [2, 1], dash_to = [4, 2], dash_fromScale = 1, dash_toScale = 2,
      dash_t = 1 / 2\<rparr>"

definition ex_pattern :: pattern where
  "ex_pattern =
     \<lparr>image_from = ''a'', image_to = ''b'', image_fromScale = 1, image_toScale = 2,
      image_t = 1 / 2\<rparr>"

definition ex_layer :: layer where
  "ex_layer = \<lparr>layer_id = ''road'', layer_paint = ex_paint, layout_line_cap = ''butt''\<rparr>"

definition ex_dashed :: layer where
  "ex_dashed = ex_layer\<lparr>layer_paint := ex_paint\<lparr>line_dasharray := Some ex_dasharray\<rparr>\<rparr>"

text \<open>A layer with a line-dasharray and a line-pattern at once.\<close>

definition ex_both :: layer where
  "ex_both =
     ex_layer\<lparr>layer_paint :=
       ex_paint\<lparr>line_dasharray := Some ex_dasharray, line_pattern := Some ex_pattern\<rparr>\<rparr>"

definition ex_patterned :: layer where
  "ex_patterned = ex_layer\<lparr>layer_paint := ex_paint\<lparr>line_pattern := Some ex_pattern\<rparr>\<rparr>"

text \<open>A patterned layer whose \<open>to\<close> image the sprite atlas does not hold yet.\<close>

definition ex_unloaded :: layer where
  "ex_unloaded =
     ex_layer\<lparr>layer_paint := ex_paint\<lparr>line_pattern := Some (ex_pattern\<lparr>image_to := ''c''\<rparr>)\<rparr>\<rparr>"

definition ex_options :: programOptions where
  "ex_options = \<lparr>opt_defines = [], opt_vertexPragmas = [], opt_fragmentPragmas = []\<rparr>"

definition ex_bucket :: bucket where
  "ex_bucket =
     \<lparr>bufferGroups_line =
        Some [\<lparr>group_id = 0, elementBuffer_length = 5\<rparr>, \<lparr>group_id = 1, elementBuffer_length = 2\<rparr>],
      paintAttributes_line = (\<lambda>id. ex_options),
      getUniforms = (\<lambda>program layer z. [])\<rparr>"

definition ex_tile :: tile where
  "ex_tile = \<lparr>tile_id = 0, getBucket = (\<lambda>layer. Some ex_bucket)\<rparr>"

definition ex_coord :: coord where
  "ex_coord = \<lparr>coord_id = 0, posMatrix = []\<rparr>"

text \<open>The line atlas holds every dash; the sprite atlas holds the images \<open>a\<close> and \<open>b\<close>.\<close>

definition ex_painter :: painter where
  "ex_painter =
     \<lparr>isOpaquePass = False,
      painter_transform = ex_transform,
      lineAtlas_getDash = (\<lambda>dash round. Some \<lparr>dash_y = 1, dash_height = 2, dash_width = 4\<rparr>),
      lineAtlas_width = 512,
      spriteAtlas_getPosition =
        (\<lambda>name repeating.
           if name = ''a'' then Some \<lparr>pos_tl = (0, 0), pos_br = (1, 1), pos_size = (8, 4)\<rparr>
           else if name = ''b'' then Some \<lparr>pos_tl = (1, 1), pos_br = (2, 2), pos_size = (6, 3)\<rparr>
           else None),
      translatePosMatrix = (\<lambda>m tile translate anchor. m)\<rparr>"

text \<open>An array of two style layers, and the number of layers for what a worker computes.\<close>

definition ex_layers :: "string layerArray" where
  "ex_layers = \<lparr>array_ref = 7, array_elems = [''road'', ''river'']\<rparr>"

section \<open>The perspective correction \<open>u_extra\<close>\<close>







lemma round64_zero: "ieee_rounding fp \<Longrightarrow> round64 fp 0 = Num 0"
  by (simp add: ieee_rounding_def)

lemma round64_one: "ieee_rounding fp \<Longrightarrow> round64 fp 1 = Num 1"
  by (simp add: ieee_rounding_def)







text \<open>
  The value is not strictly positive in general: when the sum \<open>topedgelength + x\<close>
  rounds to \<open>topedgelength\<close>, as it does in binary64 when \<open>x\<close> is small enough against
  it, the result is exactly 0.
\<close>

lemma getExtra_absorbed:
  assumes r: "ieee_rounding fp"
    and t: "topedgelength fp tr = Num t" and t0: "t \<noteq> 0"
    and x: "getExtra_x fp tr = Num x'" and a: "round64 fp (t + x') = Num t"
  shows "getExtra fp tr = Num 0"
  using t t0 x a round64_zero [OF r] round64_one [OF r] by (simp add: getExtra_def)

text \<open>At height 0 and pitch 0 the quotient is \<^verbatim>\<open>0 / 0\<close>, whatever the rounding.\<close>

lemma fl_mul_zero:
  "round64 fp 0 = Num 0 \<Longrightarrow> fl_mul fp (Num 0) w = NaN \<or> fl_mul fp (Num 0) w = Num 0"
  by (cases w) simp_all

lemma getExtra_zero_height:
  assumes r: "ieee_rounding fp" and tn: "math_tan fp 0 = Num 0"
    and h: "height tr = 0" and p: "pitch tr = 0"
  shows "getExtra fp tr = NaN"
proof -
  have z: "round64 fp 0 = Num 0" by (rule round64_zero [OF r])
  have x: "getExtra_x fp tr = Num 0"
    using z tn h p by (simp add: getExtra_x_def)
  have "topedgelength fp tr
      = fl_sqrt fp (fl_mul fp (Num 0)
          (fl_add fp (Num 1) (fl_mul fp (Num (altitude tr)) (Num (altitude tr)))))"
    using z h by (simp add: topedgelength_def)
  then have "topedgelength fp tr = NaN \<or> topedgelength fp tr = Num 0"
    using fl_mul_zero [OF z,
        of "fl_add fp (Num 1) (fl_mul fp (Num (altitude tr)) (Num (altitude tr)))"] z
    by auto
  then show ?thesis
    using x z by (auto simp add: getExtra_def)
qed






section \<open>The draw calls of \<^verbatim>\<open>drawLine\<close>\<close>

lemma drawCalls_Nil: "drawCalls [] = []"
  by (simp add: drawCalls_def)

lemma drawCalls_Cons: "drawCalls (c # cs) = (if is_draw c then c # drawCalls cs else drawCalls cs)"
  by (simp add: drawCalls_def)

lemma drawCalls_append: "drawCalls (xs @ ys) = drawCalls xs @ drawCalls ys"
  by (simp add: drawCalls_def)

lemma drawCalls_drawGroups: "drawCalls (drawGroups layer prog gs) = map drawOf gs"
  by (induction gs) (simp_all add: drawCalls_def drawOf_def)

lemma drawCalls_bindLineSDFPatternProgram:
  "drawCalls (fst (bindLineSDFPatternProgram ext painter layer tile opts)) = []"
  by (simp add: bindLineSDFPatternProgram_def drawCalls_def Let_def split: option.splits)

lemma drawCalls_bindLinePatternProgram:
  "drawCalls (fst (bindLinePatternProgram ext painter layer tile opts)) = []"
  by (simp add: bindLinePatternProgram_def drawCalls_def Let_def split: option.splits)

lemma drawCalls_bindProgram:
  "drawCalls (fst (bindProgram ext painter layer tile opts)) = []"
proof -
  have a: "drawCalls (fst (bindLineSDFPatternProgram ext painter layer tile opts)) = []"
    by (rule drawCalls_bindLineSDFPatternProgram)
  have b: "drawCalls (fst (bindLinePatternProgram ext painter layer tile opts)) = []"
    by (rule drawCalls_bindLinePatternProgram)
  show ?thesis
    using a b
    by (auto simp add: bindProgram_def bindLineProgram_def drawCalls_def Let_def
        split: prod.splits sum.splits)
qed

lemma drawCalls_drawCoord:
  "drawCalls (fst (drawCoord ext painter source layer m coord)) =
     (if snd (drawCoord ext painter source layer m coord) = None
      then map drawOf (lineGroups source layer coord) else [])"
proof (cases "getBucket (source coord) layer")
  case None
  then show ?thesis by (simp add: drawCoord_def lineGroups_def drawCalls_def)
next
  case (Some bucket)
  show ?thesis
  proof (cases "bufferGroups_line bucket")
    case None
    with Some show ?thesis by (simp add: drawCoord_def lineGroups_def drawCalls_def)
  next
    case gs: (Some gs)
    obtain bound r where b: "bindProgram ext painter layer (source coord)
        (paintAttributes_line bucket (layer_id layer)) = (bound, r)"
      by (cases "bindProgram ext painter layer (source coord)
        (paintAttributes_line bucket (layer_id layer))")
    have nb: "drawCalls bound = []"
      using drawCalls_bindProgram [of ext painter layer "source coord"
          "paintAttributes_line bucket (layer_id layer)"] b by simp
    show ?thesis
      using Some gs b nb
      by (cases r; cases "projr r")
         (simp_all add: drawCoord_def lineGroups_def Let_def drawCalls_append
            drawCalls_drawGroups drawCalls_Nil drawCalls_Cons)
  qed
qed

lemma drawCalls_drawCoords:
  "snd (drawCoords ext painter source layer m coords) = None \<Longrightarrow>
   drawCalls (fst (drawCoords ext painter source layer m coords)) =
     concat (map (\<lambda>coord. map drawOf (lineGroups source layer coord)) coords)"
proof (induction coords)
  case Nil
  then show ?case by (simp add: drawCalls_def)
next
  case (Cons coord coords)
  obtain calls r where c: "drawCoord ext painter source layer m coord = (calls, r)"
    by (cases "drawCoord ext painter source layer m coord")
  obtain calls' r' where cs: "drawCoords ext painter source layer m coords = (calls', r')"
    by (cases "drawCoords ext painter source layer m coords")
  from Cons.prems c cs have r: "r = None" and r': "r' = None"
    by (cases r; simp)+
  have "drawCalls calls = map drawOf (lineGroups source layer coord)"
    using drawCalls_drawCoord [of ext painter source layer m coord] c r by simp
  moreover have "drawCalls calls' =
      concat (map (\<lambda>coord. map drawOf (lineGroups source layer coord)) coords)"
    using Cons.IH cs r' by simp
  ultimately show ?case using c cs r by (simp add: drawCalls_append)
qed

lemma no_depthMask_drawGroups: "DepthMask b \<notin> set (drawGroups layer prog gs)"
  by (induction gs) simp_all

lemma no_depthMask_bindProgram:
  "DepthMask b \<notin> set (fst (bindProgram ext painter layer tile opts))"
  by (simp add: bindProgram_def bindLineSDFPatternProgram_def bindLinePatternProgram_def
      bindLineProgram_def Let_def split: option.splits)

lemma no_depthMask_drawCoord:
  "DepthMask b \<notin> set (fst (drawCoord ext painter source layer m coord))"
proof (cases "getBucket (source coord) layer")
  case None
  then show ?thesis by (simp add: drawCoord_def)
next
  case (Some bucket)
  show ?thesis
  proof (cases "bufferGroups_line bucket")
    case None
    with Some show ?thesis by (simp add: drawCoord_def)
  next
    case gs: (Some gs)
    obtain bound r where b: "bindProgram ext painter layer (source coord)
        (paintAttributes_line bucket (layer_id layer)) = (bound, r)"
      by (cases "bindProgram ext painter layer (source coord)
        (paintAttributes_line bucket (layer_id layer))")
    have nb: "DepthMask b \<notin> set bound"
      using no_depthMask_bindProgram [of b ext painter layer "source coord"
          "paintAttributes_line bucket (layer_id layer)"] b by simp
    show ?thesis
      using Some gs b nb
      by (cases r; cases "projr r")
         (simp_all add: drawCoord_def Let_def no_depthMask_drawGroups)
  qed
qed

lemma no_depthMask_drawCoords:
  "DepthMask b \<notin> set (fst (drawCoords ext painter source layer m coords))"
proof (induction coords)
  case Nil
  then show ?case by simp
next
  case (Cons coord coords)
  then show ?case
    using no_depthMask_drawCoord [of b ext painter source layer m coord]
    by (auto split: prod.splits option.splits)
qed

lemma drawLine_opaque:
  "isOpaquePass painter \<Longrightarrow> drawLine ext painter source layer coords = ([], None)"
  by (simp add: drawLine_def)

lemma drawLine_no_width:
  "\<not> isOpaquePass painter \<Longrightarrow> line_width (layer_paint layer) \<le> 0 \<Longrightarrow>
   drawLine ext painter source layer coords =
     ([SetDepthSublayer 0, DepthMask False, Enable ''STENCIL_TEST''], None)"
  by (simp add: drawLine_def)

lemma drawLine_draws:
  "\<not> isOpaquePass painter \<Longrightarrow> 0 < line_width (layer_paint layer) \<Longrightarrow>
   drawLine ext painter source layer coords =
     ([SetDepthSublayer 0, DepthMask False, Enable ''STENCIL_TEST'']
        @ fst (drawCoords ext painter source layer
                 (Mat2_rotate (Mat2_scale Mat2_create (1, cos (pitch (painter_transform painter))))
                    (angle (painter_transform painter))) coords),
      snd (drawCoords ext painter source layer
                 (Mat2_rotate (Mat2_scale Mat2_create (1, cos (pitch (painter_transform painter))))
                    (angle (painter_transform painter))) coords))"
  by (simp add: drawLine_def Let_def split: prod.splits)

lemma drawLine_prefix:
  "\<not> isOpaquePass painter \<Longrightarrow>
   \<exists>rest. fst (drawLine ext painter source layer coords) =
     [SetDepthSublayer 0, DepthMask False, Enable ''STENCIL_TEST''] @ rest"
  by (cases "line_width (layer_paint layer) \<le> 0")
     (simp_all add: drawLine_no_width drawLine_draws)

text \<open>
  Claim C8. \<^verbatim>\<open>drawLine\<close> issues no draw call in the opaque pass or when the line width is
  0 or less. Every draw call it issues stands after the first three calls, which disable
  the depth mask and enable the stencil test, and no call of \<^verbatim>\<open>drawLine\<close> turns the depth
  mask on again. A coordinate whose iteration ends without an exception gets one
  \<^verbatim>\<open>gl.drawElements(gl.TRIANGLES, ...)\<close> for each buffer group of its bucket, in order, and
  so does every coordinate of a call of \<^verbatim>\<open>drawLine\<close> that returns.
\<close>

theorem drawLine_draw_calls:
  "(isOpaquePass painter \<or> line_width (layer_paint layer) \<le> 0 \<longrightarrow>
      drawCalls (fst (drawLine ext painter source layer coords)) = [])
   \<and> (\<forall>i < length (fst (drawLine ext painter source layer coords)).
        is_draw (fst (drawLine ext painter source layer coords) ! i) \<longrightarrow>
          3 \<le> i
          \<and> fst (drawLine ext painter source layer coords) ! 1 = DepthMask False
          \<and> fst (drawLine ext painter source layer coords) ! 2 = Enable ''STENCIL_TEST'')
   \<and> DepthMask True \<notin> set (fst (drawLine ext painter source layer coords))
   \<and> drawCalls (fst (drawCoord ext painter source layer m coord)) =
        (if snd (drawCoord ext painter source layer m coord) = None
         then map drawOf (lineGroups source layer coord) else [])
   \<and> (snd (drawLine ext painter source layer coords) = None
        \<and> \<not> isOpaquePass painter \<and> 0 < line_width (layer_paint layer) \<longrightarrow>
        drawCalls (fst (drawLine ext painter source layer coords)) =
          concat (map (\<lambda>coord. map drawOf (lineGroups source layer coord)) coords))"
proof (intro conjI)
  show "isOpaquePass painter \<or> line_width (layer_paint layer) \<le> 0 \<longrightarrow>
      drawCalls (fst (drawLine ext painter source layer coords)) = []"
    by (cases "isOpaquePass painter")
       (auto simp add: drawLine_opaque drawLine_no_width drawCalls_Nil drawCalls_Cons)
next
  show "\<forall>i < length (fst (drawLine ext painter source layer coords)).
        is_draw (fst (drawLine ext painter source layer coords) ! i) \<longrightarrow>
          3 \<le> i
          \<and> fst (drawLine ext painter source layer coords) ! 1 = DepthMask False
          \<and> fst (drawLine ext painter source layer coords) ! 2 = Enable ''STENCIL_TEST''"
  proof (cases "isOpaquePass painter")
    case True
    then show ?thesis by (simp add: drawLine_opaque)
  next
    case False
    then obtain rest where r: "fst (drawLine ext painter source layer coords) =
        [SetDepthSublayer 0, DepthMask False, Enable ''STENCIL_TEST''] @ rest"
      using drawLine_prefix by blast
    show ?thesis
    proof (intro allI impI)
      fix i
      assume "i < length (fst (drawLine ext painter source layer coords))"
        and d: "is_draw (fst (drawLine ext painter source layer coords) ! i)"
      have "3 \<le> i"
      proof (rule ccontr)
        assume "\<not> 3 \<le> i"
        then have "i = 0 \<or> i = 1 \<or> i = 2" by arith
        with d r show False by auto
      qed
      with r show "3 \<le> i
          \<and> fst (drawLine ext painter source layer coords) ! 1 = DepthMask False
          \<and> fst (drawLine ext painter source layer coords) ! 2 = Enable ''STENCIL_TEST''"
        by simp
    qed
  qed
next
  show "DepthMask True \<notin> set (fst (drawLine ext painter source layer coords))"
  proof (cases "isOpaquePass painter")
    case True
    then show ?thesis by (simp add: drawLine_opaque)
  next
    case False
    then show ?thesis
      by (cases "line_width (layer_paint layer) \<le> 0")
         (simp_all add: drawLine_no_width drawLine_draws no_depthMask_drawCoords)
  qed
next
  show "drawCalls (fst (drawCoord ext painter source layer m coord)) =
        (if snd (drawCoord ext painter source layer m coord) = None
         then map drawOf (lineGroups source layer coord) else [])"
    by (rule drawCalls_drawCoord)
next
  show "snd (drawLine ext painter source layer coords) = None
        \<and> \<not> isOpaquePass painter \<and> 0 < line_width (layer_paint layer) \<longrightarrow>
        drawCalls (fst (drawLine ext painter source layer coords)) =
          concat (map (\<lambda>coord. map drawOf (lineGroups source layer coord)) coords)"
    by (auto simp add: drawLine_draws drawCalls_append drawCalls_Nil drawCalls_Cons
        drawCalls_drawCoords)
qed

text \<open>A solid layer on one coordinate whose bucket has two groups.\<close>

lemma ex_drawLine:
  "drawLine ex_ext ex_painter (\<lambda>coord. ex_tile) ex_layer [ex_coord] =
     ([SetDepthSublayer 0, DepthMask False, Enable ''STENCIL_TEST'',
       UseProgram \<lparr>prog_name = ''line'', prog_options = ex_options\<rparr>,
       SetUniforms (sharedUniforms ex_ext ex_painter ex_layer ex_tile),
       UniformMatrix2fv \<lparr>prog_name = ''line'', prog_options = ex_options\<rparr> ''u_antialiasingmatrix''
         (Mat2_rotate (Mat2_scale Mat2_create (1, cos (pi / 4))) 0),
       UniformMatrix4fv \<lparr>prog_name = ''line'', prog_options = ex_options\<rparr> ''u_matrix'' [],
       SetUniforms [],
       EnableTileClippingMask ex_coord,
       VaoBind 0 ''road'' \<lparr>prog_name = ''line'', prog_options = ex_options\<rparr>,
       DrawElements ''TRIANGLES'' 15 ''UNSIGNED_SHORT'' 0,
       VaoBind 1 ''road'' \<lparr>prog_name = ''line'', prog_options = ex_options\<rparr>,
       DrawElements ''TRIANGLES'' 6 ''UNSIGNED_SHORT'' 0],
      None)"
  by (simp add: drawLine_def drawCoord_def bindProgram_def bindLineProgram_def Let_def
      ex_painter_def ex_layer_def ex_paint_def ex_tile_def ex_bucket_def ex_coord_def
      ex_transform_def)

theorem drawLine_draw_calls_witness:
  "(isOpaquePass (ex_painter\<lparr>isOpaquePass := True\<rparr>)
      \<and> drawCalls (fst (drawLine ex_ext (ex_painter\<lparr>isOpaquePass := True\<rparr>) (\<lambda>coord. ex_tile)
                          ex_layer [ex_coord])) = [])
   \<and> (10 < length (fst (drawLine ex_ext ex_painter (\<lambda>coord. ex_tile) ex_layer [ex_coord]))
      \<and> is_draw (fst (drawLine ex_ext ex_painter (\<lambda>coord. ex_tile) ex_layer [ex_coord]) ! 10)
      \<and> (3::nat) \<le> 10
      \<and> fst (drawLine ex_ext ex_painter (\<lambda>coord. ex_tile) ex_layer [ex_coord]) ! 1 = DepthMask False
      \<and> fst (drawLine ex_ext ex_painter (\<lambda>coord. ex_tile) ex_layer [ex_coord]) ! 2
          = Enable ''STENCIL_TEST'')
   \<and> (snd (drawLine ex_ext ex_painter (\<lambda>coord. ex_tile) ex_layer [ex_coord]) = None
      \<and> \<not> isOpaquePass ex_painter \<and> 0 < line_width (layer_paint ex_layer)
      \<and> drawCalls (fst (drawLine ex_ext ex_painter (\<lambda>coord. ex_tile) ex_layer [ex_coord]))
          = [DrawElements ''TRIANGLES'' 15 ''UNSIGNED_SHORT'' 0,
             DrawElements ''TRIANGLES'' 6 ''UNSIGNED_SHORT'' 0])"
proof -
  have l: "lineGroups (\<lambda>coord. ex_tile) ex_layer ex_coord =
      [\<lparr>group_id = 0, elementBuffer_length = 5\<rparr>, \<lparr>group_id = 1, elementBuffer_length = 2\<rparr>]"
    by (simp add: lineGroups_def ex_tile_def ex_bucket_def)
  have p: "\<not> isOpaquePass ex_painter \<and> 0 < line_width (layer_paint ex_layer)"
    by (simp add: ex_painter_def ex_layer_def ex_paint_def)
  have q: "isOpaquePass (ex_painter\<lparr>isOpaquePass := True\<rparr>)" by simp
  show ?thesis
    using l p q ex_drawLine
      drawLine_draw_calls [where painter = "ex_painter\<lparr>isOpaquePass := True\<rparr>" and ext = ex_ext
        and source = "\<lambda>coord. ex_tile" and layer = ex_layer and coords = "[ex_coord]"
        and m = Mat2_create and coord = ex_coord]
      drawLine_draw_calls [where painter = ex_painter and ext = ex_ext
        and source = "\<lambda>coord. ex_tile" and layer = ex_layer and coords = "[ex_coord]"
        and m = Mat2_create and coord = ex_coord]
    by (simp add: drawOf_def)
qed

text \<open>
  Claim C9. In the opaque pass \<^verbatim>\<open>drawLine\<close> returns having made no call at all. With a
  line width of 0 or less, outside the opaque pass, it returns after three calls: the depth
  sublayer is set, the depth mask disabled and the stencil test enabled; no draw call is
  among them.
\<close>

theorem drawLine_skips:
  "(isOpaquePass painter \<longrightarrow> drawLine ext painter source layer coords = ([], None))
   \<and> (\<not> isOpaquePass painter \<and> line_width (layer_paint layer) \<le> 0 \<longrightarrow>
        drawLine ext painter source layer coords =
          ([SetDepthSublayer 0, DepthMask False, Enable ''STENCIL_TEST''], None))"
  by (simp add: drawLine_opaque drawLine_no_width)

theorem drawLine_skips_witness:
  "(isOpaquePass (ex_painter\<lparr>isOpaquePass := True\<rparr>)
      \<and> drawLine ex_ext (ex_painter\<lparr>isOpaquePass := True\<rparr>) (\<lambda>coord. ex_tile) ex_layer [ex_coord]
          = ([], None))
   \<and> (\<not> isOpaquePass ex_painter
      \<and> line_width (layer_paint (ex_layer\<lparr>layer_paint := ex_paint\<lparr>line_width := 0\<rparr>\<rparr>)) \<le> 0
      \<and> drawLine ex_ext ex_painter (\<lambda>coord. ex_tile)
            (ex_layer\<lparr>layer_paint := ex_paint\<lparr>line_width := 0\<rparr>\<rparr>) [ex_coord]
          = ([SetDepthSublayer 0, DepthMask False, Enable ''STENCIL_TEST''], None))"
proof -
  have p: "\<not> isOpaquePass ex_painter" by (simp add: ex_painter_def)
  show ?thesis
    using p
      drawLine_skips [where painter = "ex_painter\<lparr>isOpaquePass := True\<rparr>" and ext = ex_ext
        and source = "\<lambda>coord. ex_tile" and layer = ex_layer and coords = "[ex_coord]"]
      drawLine_skips [where painter = ex_painter and ext = ex_ext
        and source = "\<lambda>coord. ex_tile"
        and layer = "ex_layer\<lparr>layer_paint := ex_paint\<lparr>line_width := 0\<rparr>\<rparr>"
        and coords = "[ex_coord]"]
    by simp
qed


section \<open>The choice of the program\<close>

lemma programsUsed_append: "programsUsed (xs @ ys) = programsUsed xs @ programsUsed ys"
  by (induction xs rule: programsUsed.induct) simp_all

lemma programsUsed_drawGroups: "programsUsed (drawGroups layer prog gs) = []"
  by (induction gs) simp_all

lemma programsUsed_bindProgram:
  "programsUsed (fst (bindProgram ext painter layer tile opts)) =
     [if line_dasharray (layer_paint layer) \<noteq> None then ''linesdfpattern''
      else if line_pattern (layer_paint layer) \<noteq> None then ''linepattern''
      else ''line'']"
  by (simp add: bindProgram_def bindLineSDFPatternProgram_def bindLinePatternProgram_def
      bindLineProgram_def Let_def split: option.splits)

lemma bindProgram_returns:
  "snd (bindProgram ext painter layer tile opts) = Inr (Some p) \<Longrightarrow>
   programsUsed (fst (bindProgram ext painter layer tile opts)) = [prog_name p]"
  by (auto simp add: bindProgram_def bindLineSDFPatternProgram_def bindLinePatternProgram_def
      bindLineProgram_def Let_def split: option.splits if_splits)

text \<open>What one coordinate does, by the outcome of the binder.\<close>

lemma drawCoord_bound:
  assumes "getBucket (source coord) layer = Some bucket"
    and "bufferGroups_line bucket = Some gs"
    and "bindProgram ext painter layer (source coord)
           (paintAttributes_line bucket (layer_id layer)) = (bound, Inr (Some prog))"
  shows "drawCoord ext painter source layer m coord =
     (bound @ [SetUniforms (sharedUniforms ext painter layer (source coord))]
      @ [UniformMatrix2fv prog ''u_antialiasingmatrix'' m,
         UniformMatrix4fv prog ''u_matrix''
           (translatePosMatrix painter (posMatrix coord) (source coord)
              (line_translate (layer_paint layer)) (line_translate_anchor (layer_paint layer))),
         SetUniforms (getUniforms bucket prog layer (zoom (painter_transform painter))),
         EnableTileClippingMask coord]
      @ drawGroups layer prog gs, None)"
  using assms by (simp add: drawCoord_def Let_def)

lemma drawCoord_unbound:
  assumes "getBucket (source coord) layer = Some bucket"
    and "bufferGroups_line bucket = Some gs"
    and "bindProgram ext painter layer (source coord)
           (paintAttributes_line bucket (layer_id layer)) = (bound, Inr None)"
  shows "drawCoord ext painter source layer m coord =
     (bound @ [SetUniforms (sharedUniforms ext painter layer (source coord))],
      Some (TypeError ''program.u_antialiasingmatrix''))"
  using assms by (simp add: drawCoord_def Let_def)

lemma drawCoord_thrown:
  assumes "getBucket (source coord) layer = Some bucket"
    and "bufferGroups_line bucket = Some gs"
    and "bindProgram ext painter layer (source coord)
           (paintAttributes_line bucket (layer_id layer)) = (bound, Inl e)"
  shows "drawCoord ext painter source layer m coord = (bound, Some e)"
  using assms by (simp add: drawCoord_def Let_def)

lemma drawCoord_programsUsed:
  assumes "getBucket (source coord) layer = Some bucket"
    and "bufferGroups_line bucket = Some gs"
  shows "programsUsed (fst (drawCoord ext painter source layer m coord)) =
     programsUsed (fst (bindProgram ext painter layer (source coord)
                          (paintAttributes_line bucket (layer_id layer))))"
proof -
  obtain bound r where b: "bindProgram ext painter layer (source coord)
        (paintAttributes_line bucket (layer_id layer)) = (bound, r)"
    by (cases "bindProgram ext painter layer (source coord)
        (paintAttributes_line bucket (layer_id layer))")
  show ?thesis
  proof (cases r)
    case (Inl e)
    with assms b show ?thesis by (simp add: drawCoord_thrown)
  next
    case (Inr po)
    show ?thesis
    proof (cases po)
      case None
      with assms b Inr show ?thesis
        by (simp add: drawCoord_unbound programsUsed_append)
    next
      case (Some prog)
      with assms b Inr show ?thesis
        by (simp add: drawCoord_bound programsUsed_append programsUsed_drawGroups)
    qed
  qed
qed

text \<open>
  Claim C2. A layer with a line-dasharray gets the program \<open>linesdfpattern\<close>, whatever its
  line-pattern is; a layer with a line-pattern and no line-dasharray gets \<open>linepattern\<close>; a
  layer with neither gets \<open>line\<close>. Exactly one program is used, it is the one the binder
  returns when it returns one, and it is the only program used for the coordinate.
\<close>

theorem program_selection:
  "(line_dasharray (layer_paint layer) \<noteq> None \<longrightarrow>
      programsUsed (fst (bindProgram ext painter layer tile opts)) = [''linesdfpattern''])
   \<and> (line_dasharray (layer_paint layer) = None \<and> line_pattern (layer_paint layer) \<noteq> None \<longrightarrow>
      programsUsed (fst (bindProgram ext painter layer tile opts)) = [''linepattern''])
   \<and> (line_dasharray (layer_paint layer) = None \<and> line_pattern (layer_paint layer) = None \<longrightarrow>
      programsUsed (fst (bindProgram ext painter layer tile opts)) = [''line''])
   \<and> length (programsUsed (fst (bindProgram ext painter layer tile opts))) = 1
   \<and> (snd (bindProgram ext painter layer tile opts) = Inr (Some p) \<longrightarrow>
      programsUsed (fst (bindProgram ext painter layer tile opts)) = [prog_name p])
   \<and> (getBucket (source coord) layer = Some bucket \<and> bufferGroups_line bucket = Some gs \<longrightarrow>
      programsUsed (fst (drawCoord ext painter source layer m coord)) =
        programsUsed (fst (bindProgram ext painter layer (source coord)
                             (paintAttributes_line bucket (layer_id layer)))))"
proof (intro conjI)
  show "snd (bindProgram ext painter layer tile opts) = Inr (Some p) \<longrightarrow>
      programsUsed (fst (bindProgram ext painter layer tile opts)) = [prog_name p]"
    by (rule impI) (rule bindProgram_returns)
qed (simp_all add: programsUsed_bindProgram drawCoord_programsUsed)


theorem program_selection_witness:
  "(line_dasharray (layer_paint ex_both) \<noteq> None \<and> line_pattern (layer_paint ex_both) \<noteq> None
      \<and> programsUsed (fst (bindProgram ex_ext ex_painter ex_both ex_tile ex_options)) = [''linesdfpattern''])
   \<and> (line_dasharray (layer_paint ex_patterned) = None \<and> line_pattern (layer_paint ex_patterned) \<noteq> None
      \<and> programsUsed (fst (bindProgram ex_ext ex_painter ex_patterned ex_tile ex_options)) = [''linepattern''])
   \<and> (line_dasharray (layer_paint ex_layer) = None \<and> line_pattern (layer_paint ex_layer) = None
      \<and> programsUsed (fst (bindProgram ex_ext ex_painter ex_layer ex_tile ex_options)) = [''line''])
   \<and> (snd (bindProgram ex_ext ex_painter ex_layer ex_tile ex_options)
        = Inr (Some \<lparr>prog_name = ''line'', prog_options = ex_options\<rparr>)
      \<and> programsUsed (fst (bindProgram ex_ext ex_painter ex_layer ex_tile ex_options))
          = [prog_name \<lparr>prog_name = ''line'', prog_options = ex_options\<rparr>])
   \<and> (getBucket ex_tile ex_dashed = Some ex_bucket
      \<and> bufferGroups_line ex_bucket
          = Some [\<lparr>group_id = 0, elementBuffer_length = 5\<rparr>, \<lparr>group_id = 1, elementBuffer_length = 2\<rparr>]
      \<and> programsUsed (fst (drawCoord ex_ext ex_painter (\<lambda>coord. ex_tile) ex_dashed Mat2_create ex_coord))
          = [''linesdfpattern''])"
proof -
  have s: "snd (bindProgram ex_ext ex_painter ex_layer ex_tile ex_options)
        = Inr (Some \<lparr>prog_name = ''line'', prog_options = ex_options\<rparr>)"
    by (simp add: bindProgram_def bindLineProgram_def ex_layer_def ex_paint_def Let_def)
  have b: "getBucket ex_tile ex_dashed = Some ex_bucket"
    by (simp add: ex_tile_def)
  have g: "bufferGroups_line ex_bucket
          = Some [\<lparr>group_id = 0, elementBuffer_length = 5\<rparr>, \<lparr>group_id = 1, elementBuffer_length = 2\<rparr>]"
    by (simp add: ex_bucket_def)
  have d: "line_dasharray (layer_paint ex_dashed) \<noteq> None"
    by (simp add: ex_dashed_def)
  have d': "line_dasharray (layer_paint ex_both) \<noteq> None \<and> line_pattern (layer_paint ex_both) \<noteq> None"
    by (simp add: ex_both_def)
  have p: "line_dasharray (layer_paint ex_patterned) = None \<and> line_pattern (layer_paint ex_patterned) \<noteq> None"
    by (simp add: ex_patterned_def ex_paint_def)
  have l: "line_dasharray (layer_paint ex_layer) = None \<and> line_pattern (layer_paint ex_layer) = None"
    by (simp add: ex_layer_def ex_paint_def)
  have o: "paintAttributes_line ex_bucket (layer_id ex_dashed) = ex_options"
    by (simp add: ex_bucket_def)
  show ?thesis
    using s b g d d' p l o
      program_selection [where layer = ex_both and ext = ex_ext and painter = ex_painter
        and tile = ex_tile and opts = ex_options and source = "\<lambda>coord. ex_tile"
        and coord = ex_coord and bucket = ex_bucket and m = Mat2_create
        and gs = "[]"
        and p = "\<lparr>prog_name = ''line'', prog_options = ex_options\<rparr>"]
      program_selection [where layer = ex_dashed and ext = ex_ext and painter = ex_painter
        and tile = ex_tile and opts = ex_options and source = "\<lambda>coord. ex_tile"
        and coord = ex_coord and bucket = ex_bucket and m = Mat2_create
        and gs = "[\<lparr>group_id = 0, elementBuffer_length = 5\<rparr>, \<lparr>group_id = 1, elementBuffer_length = 2\<rparr>]"
        and p = "\<lparr>prog_name = ''line'', prog_options = ex_options\<rparr>"]
      program_selection [where layer = ex_patterned and ext = ex_ext and painter = ex_painter
        and tile = ex_tile and opts = ex_options and source = "\<lambda>coord. ex_tile"
        and coord = ex_coord and bucket = ex_bucket and m = Mat2_create
        and gs = "[]"
        and p = "\<lparr>prog_name = ''line'', prog_options = ex_options\<rparr>"]
      program_selection [where layer = ex_layer and ext = ex_ext and painter = ex_painter
        and tile = ex_tile and opts = ex_options and source = "\<lambda>coord. ex_tile"
        and coord = ex_coord and bucket = ex_bucket and m = Mat2_create
        and gs = "[]"
        and p = "\<lparr>prog_name = ''line'', prog_options = ex_options\<rparr>"]
    by simp
qed

section \<open>A pattern image that is not loaded\<close>

lemma bindLinePatternProgram_unloaded:
  assumes "line_pattern (layer_paint layer) = Some im"
    and "spriteAtlas_getPosition painter (image_from im) True = None
         \<or> spriteAtlas_getPosition painter (image_to im) True = None"
  shows "bindLinePatternProgram ext painter layer tile opts =
     ([UseProgram \<lparr>prog_name = ''linepattern'', prog_options = opts\<rparr>], Inr None)"
  using assms
  by (auto simp add: bindLinePatternProgram_def Let_def split: option.splits)

lemma drawCoord_unloaded:
  assumes "line_dasharray (layer_paint layer) = None"
    and "line_pattern (layer_paint layer) = Some im"
    and "spriteAtlas_getPosition painter (image_from im) True = None
         \<or> spriteAtlas_getPosition painter (image_to im) True = None"
    and "getBucket (source coord) layer = Some bucket"
    and "bufferGroups_line bucket = Some gs"
  shows "drawCoord ext painter source layer m coord =
     ([UseProgram \<lparr>prog_name = ''linepattern'',
                   prog_options = paintAttributes_line bucket (layer_id layer)\<rparr>,
       SetUniforms (sharedUniforms ext painter layer (source coord))],
      Some (TypeError ''program.u_antialiasingmatrix''))"
proof -
  have "bindProgram ext painter layer (source coord) (paintAttributes_line bucket (layer_id layer))
      = ([UseProgram \<lparr>prog_name = ''linepattern'',
                   prog_options = paintAttributes_line bucket (layer_id layer)\<rparr>], Inr None)"
    using assms(1,2) bindLinePatternProgram_unloaded [OF assms(2,3)]
    by (simp add: bindProgram_def)
  then show ?thesis
    using assms(4,5) drawCoord_unbound [where source = source and coord = coord] by simp
qed

text \<open>
  Claim C1 says that a patterned layer whose \<open>from\<close> or \<open>to\<close> image is not in the sprite
  atlas is skipped for the coordinate, with no uniform bound and no harm to the frame. The
  binder does return no program, and no draw call is issued; but \<^verbatim>\<open>drawLine\<close> goes on with
  the \<^verbatim>\<open>undefined\<close> program: it binds the shared uniforms and then throws a \<^verbatim>\<open>TypeError\<close>
  reading \<^verbatim>\<open>program.u_antialiasingmatrix\<close>, which also ends the loop before the second
  coordinate.
\<close>

theorem drawLine_unloaded_pattern:
  "line_pattern (layer_paint ex_unloaded) = Some (ex_pattern\<lparr>image_to := ''c''\<rparr>)
   \<and> spriteAtlas_getPosition ex_painter ''c'' True = None
   \<and> drawLine ex_ext ex_painter (\<lambda>coord. ex_tile) ex_unloaded [ex_coord, ex_coord\<lparr>coord_id := 1\<rparr>] =
     ([SetDepthSublayer 0, DepthMask False, Enable ''STENCIL_TEST'',
       UseProgram \<lparr>prog_name = ''linepattern'', prog_options = ex_options\<rparr>,
       SetUniforms (sharedUniforms ex_ext ex_painter ex_unloaded ex_tile)],
      Some (TypeError ''program.u_antialiasingmatrix''))"
  by (simp add: drawLine_def drawCoord_def bindProgram_def bindLinePatternProgram_def Let_def
      ex_painter_def ex_unloaded_def ex_layer_def ex_paint_def ex_pattern_def ex_tile_def
      ex_bucket_def)

section \<open>The shared uniforms\<close>

lemma uniformsSet_append: "uniformsSet (xs @ ys) = uniformsSet xs @ uniformsSet ys"
  by (induction xs rule: uniformsSet.induct) simp_all

lemma sharedUniforms_bound:
  "snd (drawCoord ext painter source layer m coord) = None \<Longrightarrow>
   lineGroups source layer coord \<noteq> [] \<Longrightarrow>
   SetUniforms (sharedUniforms ext painter layer (source coord))
     \<in> set (fst (drawCoord ext painter source layer m coord))"
proof -
  assume ok: "snd (drawCoord ext painter source layer m coord) = None"
    and ne: "lineGroups source layer coord \<noteq> []"
  from ne obtain bucket gs where b: "getBucket (source coord) layer = Some bucket"
    and g: "bufferGroups_line bucket = Some gs"
    by (auto simp add: lineGroups_def split: option.splits)
  obtain bound r where bp: "bindProgram ext painter layer (source coord)
        (paintAttributes_line bucket (layer_id layer)) = (bound, r)"
    by (cases "bindProgram ext painter layer (source coord)
        (paintAttributes_line bucket (layer_id layer))")
  show ?thesis
  proof (cases r)
    case (Inl e)
    with b g bp ok show ?thesis
      using drawCoord_thrown [where source = source and coord = coord] by simp
  next
    case (Inr po)
    show ?thesis
    proof (cases po)
      case None
      with b g bp Inr show ?thesis
        using drawCoord_unbound [where source = source and coord = coord] by simp
    next
      case (Some prog)
      with b g bp Inr show ?thesis
        using drawCoord_bound [where source = source and coord = coord] by simp
    qed
  qed
qed

text \<open>
  Claim C5, as stated: \<open>u_blur\<close> is the line-blur plus half a device pixel. With a
  device pixel ratio of 2 and a line-blur of 1 the claim gives \<open>1 + 1/4\<close>; the code
  binds \<open>1 + 1/2\<close>.
\<close>

theorem shared_blur_counterexample:
  "map_of (sharedUniforms ex_ext ex_painter ex_layer ex_tile) ''u_blur''
     \<noteq> Some (UNum (Some (line_blur (layer_paint ex_layer) + 1 / devicePixelRatio ex_ext / 2)))"
  by (simp add: sharedUniforms_def js_div_def ex_ext_def ex_layer_def ex_paint_def)

text \<open>
  Claim C5, amended: for every layer drawn, \<open>u_blur\<close> is the layer's line-blur plus one
  whole device pixel, \<open>1 / devicePixelRatio\<close>, and \<open>u_antialiasing\<close> is half a device
  pixel, \<open>(1 / devicePixelRatio) / 2\<close>. Neither depends on the layer's line-dasharray or
  line-pattern, so they are the same for the solid, dashed and patterned variants, and they
  are bound for every coordinate that is drawn.
\<close>

theorem shared_blur_antialiasing:
  "(devicePixelRatio ext \<noteq> 0 \<longrightarrow>
      map_of (sharedUniforms ext painter layer tile) ''u_blur''
        = Some (UNum (Some (line_blur (layer_paint layer) + 1 / devicePixelRatio ext)))
      \<and> map_of (sharedUniforms ext painter layer tile) ''u_antialiasing''
        = Some (UNum (Some (1 / devicePixelRatio ext / 2))))
   \<and> map_of (sharedUniforms ext painter
               (layer\<lparr>layer_paint := (layer_paint layer)\<lparr>line_dasharray := d, line_pattern := p\<rparr>\<rparr>) tile)
            ''u_blur''
        = map_of (sharedUniforms ext painter layer tile) ''u_blur''
   \<and> map_of (sharedUniforms ext painter
               (layer\<lparr>layer_paint := (layer_paint layer)\<lparr>line_dasharray := d, line_pattern := p\<rparr>\<rparr>) tile)
            ''u_antialiasing''
        = map_of (sharedUniforms ext painter layer tile) ''u_antialiasing''
   \<and> (snd (drawCoord ext painter source layer m coord) = None
        \<and> lineGroups source layer coord \<noteq> [] \<longrightarrow>
        SetUniforms (sharedUniforms ext painter layer (source coord))
          \<in> set (fst (drawCoord ext painter source layer m coord)))"
proof (intro conjI)
  show "snd (drawCoord ext painter source layer m coord) = None
        \<and> lineGroups source layer coord \<noteq> [] \<longrightarrow>
        SetUniforms (sharedUniforms ext painter layer (source coord))
          \<in> set (fst (drawCoord ext painter source layer m coord))"
    using sharedUniforms_bound by blast
qed (simp_all add: sharedUniforms_def js_div_def)

theorem shared_blur_antialiasing_witness:
  "devicePixelRatio ex_ext \<noteq> 0
   \<and> map_of (sharedUniforms ex_ext ex_painter ex_layer ex_tile) ''u_blur''
       = Some (UNum (Some (3 / 2)))
   \<and> map_of (sharedUniforms ex_ext ex_painter ex_layer ex_tile) ''u_antialiasing''
       = Some (UNum (Some (1 / 4)))
   \<and> snd (drawCoord ex_ext ex_painter (\<lambda>coord. ex_tile) ex_layer Mat2_create ex_coord) = None
   \<and> lineGroups (\<lambda>coord. ex_tile) ex_layer ex_coord \<noteq> []
   \<and> SetUniforms (sharedUniforms ex_ext ex_painter ex_layer ex_tile)
       \<in> set (fst (drawCoord ex_ext ex_painter (\<lambda>coord. ex_tile) ex_layer Mat2_create ex_coord))"
proof -
  have d: "devicePixelRatio ex_ext = 2" by (simp add: ex_ext_def)
  have b: "line_blur (layer_paint ex_layer) = 1" by (simp add: ex_layer_def ex_paint_def)
  have s: "snd (drawCoord ex_ext ex_painter (\<lambda>coord. ex_tile) ex_layer Mat2_create ex_coord) = None"
    by (simp add: drawCoord_def bindProgram_def bindLineProgram_def Let_def ex_tile_def
        ex_bucket_def ex_layer_def ex_paint_def)
  have l: "lineGroups (\<lambda>coord. ex_tile) ex_layer ex_coord \<noteq> []"
    by (simp add: lineGroups_def ex_tile_def ex_bucket_def)
  show ?thesis
    using d b s l
      shared_blur_antialiasing [where ext = ex_ext and painter = ex_painter and layer = ex_layer
        and tile = ex_tile and source = "\<lambda>coord. ex_tile" and m = Mat2_create
        and coord = ex_coord and d = None and p = None]
    by simp
qed

section \<open>The uniforms of the patterned and the dashed variant\<close>

text \<open>
  Claim C6. In the patterned variant, when both images are in the sprite atlas, the second
  component of \<open>u_pattern_size_a\<close> and of \<open>u_pattern_size_b\<close> is the height of image B,
  \<^verbatim>\<open>imagePosB.size[1]\<close>; the first component is \<^verbatim>\<open>pixelsToTileUnits\<close> of
  \<^verbatim>\<open>imagePosA.size[0] * image.fromScale\<close> for A and of \<^verbatim>\<open>imagePosB.size[0] * image.toScale\<close>
  for B.
\<close>

theorem pattern_size_uniforms:
  "line_pattern (layer_paint layer) = Some im
   \<and> spriteAtlas_getPosition painter (image_from im) True = Some a
   \<and> spriteAtlas_getPosition painter (image_to im) True = Some b \<longrightarrow>
     map_of (uniformsSet (fst (bindLinePatternProgram ext painter layer tile opts)))
         ''u_pattern_size_a''
       = Some (UVec2 (Some (pixelsToTileUnits ext tile (fst (pos_size a) * image_fromScale im)
                              (tileZoom (painter_transform painter))))
                     (Some (snd (pos_size b))))
     \<and> map_of (uniformsSet (fst (bindLinePatternProgram ext painter layer tile opts)))
         ''u_pattern_size_b''
       = Some (UVec2 (Some (pixelsToTileUnits ext tile (fst (pos_size b) * image_toScale im)
                              (tileZoom (painter_transform painter))))
                     (Some (snd (pos_size b))))"
  by (simp add: bindLinePatternProgram_def Let_def)

theorem pattern_size_uniforms_witness:
  "line_pattern (layer_paint ex_patterned) = Some ex_pattern
   \<and> spriteAtlas_getPosition ex_painter (image_from ex_pattern) True
       = Some \<lparr>pos_tl = (0, 0), pos_br = (1, 1), pos_size = (8, 4)\<rparr>
   \<and> spriteAtlas_getPosition ex_painter (image_to ex_pattern) True
       = Some \<lparr>pos_tl = (1, 1), pos_br = (2, 2), pos_size = (6, 3)\<rparr>
   \<and> map_of (uniformsSet (fst (bindLinePatternProgram ex_ext ex_painter ex_patterned ex_tile ex_options)))
         ''u_pattern_size_a''
       = Some (UVec2 (Some 128) (Some 3))
   \<and> map_of (uniformsSet (fst (bindLinePatternProgram ex_ext ex_painter ex_patterned ex_tile ex_options)))
         ''u_pattern_size_b''
       = Some (UVec2 (Some 192) (Some 3))"
proof -
  have p: "line_pattern (layer_paint ex_patterned) = Some ex_pattern"
    by (simp add: ex_patterned_def)
  have a: "spriteAtlas_getPosition ex_painter (image_from ex_pattern) True
       = Some \<lparr>pos_tl = (0, 0), pos_br = (1, 1), pos_size = (8, 4)\<rparr>"
    by (simp add: ex_painter_def ex_pattern_def)
  have b: "spriteAtlas_getPosition ex_painter (image_to ex_pattern) True
       = Some \<lparr>pos_tl = (1, 1), pos_br = (2, 2), pos_size = (6, 3)\<rparr>"
    by (simp add: ex_painter_def ex_pattern_def)
  have e: "pixelsToTileUnits ex_ext = (\<lambda>tile pixelValue z. pixelValue * 16)"
    by (simp add: ex_ext_def)
  have s: "image_fromScale ex_pattern = 1 \<and> image_toScale ex_pattern = 2"
    by (simp add: ex_pattern_def)
  show ?thesis
    using p a b e s
      pattern_size_uniforms [where layer = ex_patterned and im = ex_pattern and painter = ex_painter
        and a = "\<lparr>pos_tl = (0, 0), pos_br = (1, 1), pos_size = (8, 4)\<rparr>"
        and b = "\<lparr>pos_tl = (1, 1), pos_br = (2, 2), pos_size = (6, 3)\<rparr>"
        and ext = ex_ext and tile = ex_tile and opts = ex_options]
    by simp
qed

text \<open>
  Claim C7. In the dashed variant, when both dashes are in the line atlas, \<open>u_sdfgamma\<close>
  is \<open>atlasWidth / (min widthA widthB * 256 * devicePixelRatio) / 2\<close>, where \<open>widthA\<close>
  is the width of the \<open>from\<close> entry times \<open>fromScale\<close> and \<open>widthB\<close> the width of the
  \<open>to\<close> entry times \<open>toScale\<close>; the value is a finite number when the divisor is not 0.
\<close>

theorem sdfgamma_uniform:
  "line_dasharray (layer_paint layer) = Some d
   \<and> lineAtlas_getDash painter (dash_from d) (layout_line_cap layer = ''round'') = Some a
   \<and> lineAtlas_getDash painter (dash_to d) (layout_line_cap layer = ''round'') = Some b \<longrightarrow>
     map_of (uniformsSet (fst (bindLineSDFPatternProgram ext painter layer tile opts)))
         ''u_sdfgamma''
       = Some (UNum (map_option (\<lambda>q. q / 2)
                       (js_div (lineAtlas_width painter)
                          (min (dash_width a * dash_fromScale d)
                               (dash_width b * dash_toScale d) * 256 * devicePixelRatio ext))))
     \<and> (min (dash_width a * dash_fromScale d) (dash_width b * dash_toScale d) * 256
           * devicePixelRatio ext \<noteq> 0 \<longrightarrow>
         map_of (uniformsSet (fst (bindLineSDFPatternProgram ext painter layer tile opts)))
             ''u_sdfgamma''
           = Some (UNum (Some (lineAtlas_width painter
                                / (min (dash_width a * dash_fromScale d)
                                       (dash_width b * dash_toScale d) * 256 * devicePixelRatio ext)
                                / 2))))"
  by (simp add: bindLineSDFPatternProgram_def Let_def js_div_def)

theorem sdfgamma_uniform_witness:
  "line_dasharray (layer_paint ex_dashed) = Some ex_dasharray
   \<and> lineAtlas_getDash ex_painter (dash_from ex_dasharray) (layout_line_cap ex_dashed = ''round'')
       = Some \<lparr>dash_y = 1, dash_height = 2, dash_width = 4\<rparr>
   \<and> lineAtlas_getDash ex_painter (dash_to ex_dasharray) (layout_line_cap ex_dashed = ''round'')
       = Some \<lparr>dash_y = 1, dash_height = 2, dash_width = 4\<rparr>
   \<and> min (4 * dash_fromScale ex_dasharray) (4 * dash_toScale ex_dasharray) * 256
       * devicePixelRatio ex_ext \<noteq> 0
   \<and> map_of (uniformsSet (fst (bindLineSDFPatternProgram ex_ext ex_painter ex_dashed ex_tile ex_options)))
         ''u_sdfgamma''
       = Some (UNum (Some (1 / 8)))"
proof -
  have p: "line_dasharray (layer_paint ex_dashed) = Some ex_dasharray"
    by (simp add: ex_dashed_def)
  have a: "lineAtlas_getDash ex_painter = (\<lambda>dash round. Some \<lparr>dash_y = 1, dash_height = 2, dash_width = 4\<rparr>)"
    by (simp add: ex_painter_def)
  have w: "lineAtlas_width ex_painter = 512" by (simp add: ex_painter_def)
  have e: "devicePixelRatio ex_ext = 2" by (simp add: ex_ext_def)
  have s: "dash_fromScale ex_dasharray = 1 \<and> dash_toScale ex_dasharray = 2"
    by (simp add: ex_dasharray_def)
  show ?thesis
    using p a w e s
      sdfgamma_uniform [where layer = ex_dashed and d = ex_dasharray and painter = ex_painter
        and a = "\<lparr>dash_y = 1, dash_height = 2, dash_width = 4\<rparr>"
        and b = "\<lparr>dash_y = 1, dash_height = 2, dash_width = 4\<rparr>"
        and ext = ex_ext and tile = ex_tile and opts = ex_options]
    by (simp add: js_div_def)
qed

section \<open>Dashes that are not in the line atlas\<close>

lemma bindLineSDFPatternProgram_result:
  assumes "line_dasharray (layer_paint layer) = Some d"
  shows "snd (bindLineSDFPatternProgram ext painter layer tile opts) =
     (case lineAtlas_getDash painter (dash_from d) (layout_line_cap layer = ''round'') of
        None \<Rightarrow> Inl (TypeError ''posA.width'')
      | Some a \<Rightarrow>
          (case lineAtlas_getDash painter (dash_to d) (layout_line_cap layer = ''round'') of
             None \<Rightarrow> Inl (TypeError ''posB.width'')
           | Some b \<Rightarrow> Inr \<lparr>prog_name = ''linesdfpattern'', prog_options = opts\<rparr>))"
  using assms
  by (simp add: bindLineSDFPatternProgram_def Let_def split: option.splits)

lemma drawCoord_dashed:
  assumes "line_dasharray (layer_paint layer) = Some d"
    and "\<forall>dash round. lineAtlas_getDash painter dash round \<noteq> None"
  shows "snd (drawCoord ext painter source layer m coord) = None"
proof (cases "getBucket (source coord) layer")
  case None
  then show ?thesis by (simp add: drawCoord_def)
next
  case (Some bucket)
  show ?thesis
  proof (cases "bufferGroups_line bucket")
    case None
    with Some show ?thesis by (simp add: drawCoord_def)
  next
    case gs: (Some gs)
    obtain a where a: "lineAtlas_getDash painter (dash_from d) (layout_line_cap layer = ''round'') = Some a"
      using assms(2) by (meson option.exhaust)
    obtain b where b: "lineAtlas_getDash painter (dash_to d) (layout_line_cap layer = ''round'') = Some b"
      using assms(2) by (meson option.exhaust)
    obtain calls r where c: "bindLineSDFPatternProgram ext painter layer (source coord)
        (paintAttributes_line bucket (layer_id layer)) = (calls, r)"
      by (cases "bindLineSDFPatternProgram ext painter layer (source coord)
        (paintAttributes_line bucket (layer_id layer))")
    have "r = Inr \<lparr>prog_name = ''linesdfpattern'',
                    prog_options = paintAttributes_line bucket (layer_id layer)\<rparr>"
      using bindLineSDFPatternProgram_result [OF assms(1), of ext painter "source coord"
          "paintAttributes_line bucket (layer_id layer)"] a b c by simp
    with c assms(1) have "bindProgram ext painter layer (source coord)
        (paintAttributes_line bucket (layer_id layer)) =
        (calls, Inr (Some \<lparr>prog_name = ''linesdfpattern'',
                    prog_options = paintAttributes_line bucket (layer_id layer)\<rparr>))"
      by (simp add: bindProgram_def)
    with Some gs show ?thesis
      using drawCoord_bound [where source = source and coord = coord] by simp
  qed
qed

lemma drawCoords_dashed:
  assumes "line_dasharray (layer_paint layer) = Some d"
    and "\<forall>dash round. lineAtlas_getDash painter dash round \<noteq> None"
  shows "snd (drawCoords ext painter source layer m coords) = None"
proof (induction coords)
  case Nil
  then show ?case by simp
next
  case (Cons coord coords)
  obtain calls r where c: "drawCoord ext painter source layer m coord = (calls, r)"
    by (cases "drawCoord ext painter source layer m coord")
  obtain calls' r' where cs: "drawCoords ext painter source layer m coords = (calls', r')"
    by (cases "drawCoords ext painter source layer m coords")
  have "r = None" using drawCoord_dashed [OF assms, of ext source m coord] c by simp
  moreover have "r' = None" using Cons.IH cs by simp
  ultimately show ?case using c cs by simp
qed

text \<open>
  Claim C10. The dashed binder makes no test on what \<^verbatim>\<open>lineAtlas.getDash\<close> returns: with
  \<^verbatim>\<open>null\<close> for the \<open>from\<close> dash it throws reading \<^verbatim>\<open>posA.width\<close>, with \<^verbatim>\<open>null\<close> for the
  \<open>to\<close> dash only it throws reading \<^verbatim>\<open>posB.width\<close>, and with an entry for both it returns
  the program. When the line atlas has an entry for every dash, \<^verbatim>\<open>drawLine\<close> on a dashed
  layer throws nothing.
\<close>

theorem dashed_path_total:
  "line_dasharray (layer_paint layer) = Some d \<longrightarrow>
     (lineAtlas_getDash painter (dash_from d) (layout_line_cap layer = ''round'') = None \<longrightarrow>
        snd (bindLineSDFPatternProgram ext painter layer tile opts) = Inl (TypeError ''posA.width''))
     \<and> (lineAtlas_getDash painter (dash_from d) (layout_line_cap layer = ''round'') \<noteq> None
        \<and> lineAtlas_getDash painter (dash_to d) (layout_line_cap layer = ''round'') = None \<longrightarrow>
        snd (bindLineSDFPatternProgram ext painter layer tile opts) = Inl (TypeError ''posB.width''))
     \<and> (lineAtlas_getDash painter (dash_from d) (layout_line_cap layer = ''round'') \<noteq> None
        \<and> lineAtlas_getDash painter (dash_to d) (layout_line_cap layer = ''round'') \<noteq> None \<longrightarrow>
        snd (bindLineSDFPatternProgram ext painter layer tile opts)
          = Inr \<lparr>prog_name = ''linesdfpattern'', prog_options = opts\<rparr>)
     \<and> ((\<forall>dash round. lineAtlas_getDash painter dash round \<noteq> None) \<longrightarrow>
        snd (drawLine ext painter source layer coords) = None)"
proof (intro impI conjI)
  assume d: "line_dasharray (layer_paint layer) = Some d"
    and t: "\<forall>dash round. lineAtlas_getDash painter dash round \<noteq> None"
  show "snd (drawLine ext painter source layer coords) = None"
  proof (cases "isOpaquePass painter")
    case True
    then show ?thesis by (simp add: drawLine_opaque)
  next
    case False
    then show ?thesis
      by (cases "line_width (layer_paint layer) \<le> 0")
         (simp_all add: drawLine_no_width drawLine_draws drawCoords_dashed [OF d t])
  qed
qed (auto simp add: bindLineSDFPatternProgram_result)

theorem dashed_path_total_witness:
  "line_dasharray (layer_paint ex_dashed) = Some ex_dasharray
   \<and> (lineAtlas_getDash (ex_painter\<lparr>lineAtlas_getDash := (\<lambda>dash round. None)\<rparr>)
         (dash_from ex_dasharray) (layout_line_cap ex_dashed = ''round'') = None
      \<and> snd (bindLineSDFPatternProgram ex_ext (ex_painter\<lparr>lineAtlas_getDash := (\<lambda>dash round. None)\<rparr>)
                ex_dashed ex_tile ex_options) = Inl (TypeError ''posA.width''))
   \<and> (lineAtlas_getDash (ex_painter\<lparr>lineAtlas_getDash :=
           (\<lambda>dash round. if dash = [2, 1] then Some \<lparr>dash_y = 1, dash_height = 2, dash_width = 4\<rparr>
                          else None)\<rparr>)
         (dash_from ex_dasharray) (layout_line_cap ex_dashed = ''round'') \<noteq> None
      \<and> lineAtlas_getDash (ex_painter\<lparr>lineAtlas_getDash :=
           (\<lambda>dash round. if dash = [2, 1] then Some \<lparr>dash_y = 1, dash_height = 2, dash_width = 4\<rparr>
                          else None)\<rparr>)
         (dash_to ex_dasharray) (layout_line_cap ex_dashed = ''round'') = None
      \<and> snd (bindLineSDFPatternProgram ex_ext (ex_painter\<lparr>lineAtlas_getDash :=
           (\<lambda>dash round. if dash = [2, 1] then Some \<lparr>dash_y = 1, dash_height = 2, dash_width = 4\<rparr>
                          else None)\<rparr>)
                ex_dashed ex_tile ex_options) = Inl (TypeError ''posB.width''))
   \<and> (lineAtlas_getDash ex_painter (dash_from ex_dasharray) (layout_line_cap ex_dashed = ''round'') \<noteq> None
      \<and> lineAtlas_getDash ex_painter (dash_to ex_dasharray) (layout_line_cap ex_dashed = ''round'') \<noteq> None
      \<and> snd (bindLineSDFPatternProgram ex_ext ex_painter ex_dashed ex_tile ex_options)
          = Inr \<lparr>prog_name = ''linesdfpattern'', prog_options = ex_options\<rparr>)
   \<and> ((\<forall>dash round. lineAtlas_getDash ex_painter dash round \<noteq> None)
      \<and> snd (drawLine ex_ext ex_painter (\<lambda>coord. ex_tile) ex_dashed [ex_coord]) = None)"
proof -
  have p: "line_dasharray (layer_paint ex_dashed) = Some ex_dasharray"
    by (simp add: ex_dashed_def)
  have a: "lineAtlas_getDash ex_painter = (\<lambda>dash round. Some \<lparr>dash_y = 1, dash_height = 2, dash_width = 4\<rparr>)"
    by (simp add: ex_painter_def)
  have f: "dash_from ex_dasharray = [2, 1] \<and> dash_to ex_dasharray = [4, 2]"
    by (simp add: ex_dasharray_def)
  show ?thesis
    using p a f
      dashed_path_total [where layer = ex_dashed and d = ex_dasharray
        and painter = "ex_painter\<lparr>lineAtlas_getDash := (\<lambda>dash round. None)\<rparr>"
        and ext = ex_ext and tile = ex_tile and opts = ex_options
        and source = "\<lambda>coord. ex_tile" and coords = "[ex_coord]"]
      dashed_path_total [where layer = ex_dashed and d = ex_dasharray
        and painter = "ex_painter\<lparr>lineAtlas_getDash :=
           (\<lambda>dash round. if dash = [2, 1] then Some \<lparr>dash_y = 1, dash_height = 2, dash_width = 4\<rparr>
                          else None)\<rparr>"
        and ext = ex_ext and tile = ex_tile and opts = ex_options
        and source = "\<lambda>coord. ex_tile" and coords = "[ex_coord]"]
      dashed_path_total [where layer = ex_dashed and d = ex_dasharray
        and painter = ex_painter
        and ext = ex_ext and tile = ex_tile and opts = ex_options
        and source = "\<lambda>coord. ex_tile" and coords = "[ex_coord]"]
    by simp
qed

section \<open>The cache of \<^verbatim>\<open>createLayerFamilies\<close>\<close>

lemma createLayerFamilies_hit:
  "createLayerFamiliesCacheKey s = Some (array_ref layers) \<Longrightarrow>
   createLayerFamilies set_layers layers s = (createLayerFamiliesCacheValue s, s)"
  by (simp add: createLayerFamilies_def)

lemma createLayerFamilies_miss:
  "createLayerFamiliesCacheKey s \<noteq> Some (array_ref layers) \<Longrightarrow>
   createLayerFamilies set_layers layers s =
     (Some \<lparr>families_ref = workers_constructed s,
            families_value = set_layers (array_elems layers)\<rparr>,
      s\<lparr>workers_constructed := Suc (workers_constructed s),
        createLayerFamiliesCacheKey := Some (array_ref layers),
        createLayerFamiliesCacheValue :=
          Some \<lparr>families_ref = workers_constructed s,
                families_value = set_layers (array_elems layers)\<rparr>\<rparr>)"
  by (auto simp add: createLayerFamilies_def Let_def)

lemma createLayerFamilies_key:
  "createLayerFamiliesCacheKey (snd (createLayerFamilies set_layers layers s))
     = Some (array_ref layers)"
  by (simp add: createLayerFamilies_def Let_def)

lemma createLayerFamilies_value:
  "createLayerFamiliesCacheValue (snd (createLayerFamilies set_layers layers s))
     = fst (createLayerFamilies set_layers layers s)"
  by (simp add: createLayerFamilies_def Let_def)

lemma cache_wf_init: "cache_wf bench_init"
  by (simp add: cache_wf_def bench_init_def)

lemma cache_wf_createLayerFamilies:
  "cache_wf s \<Longrightarrow> cache_wf (snd (createLayerFamilies set_layers layers s))"
  by (simp add: createLayerFamilies_def cache_wf_def Let_def)

lemma createLayerFamilies_ref_bound:
  assumes "cache_wf s" and "fst (createLayerFamilies set_layers layers s) = Some v"
  shows "families_ref v < workers_constructed (snd (createLayerFamilies set_layers layers s))"
  using cache_wf_createLayerFamilies [OF assms(1), of set_layers layers] assms(2)
  by (simp add: cache_wf_def createLayerFamilies_value)

text \<open>
  Claim C4. A second call with the same array reference returns the same object as the
  first and changes nothing: no worker is constructed. A call with another reference to an
  array of the same elements constructs a worker, returns its \<^verbatim>\<open>layerFamilies\<close>, a new
  object, and stores the new reference and the new object in the cache; the cache has one
  slot, so a later call with the first reference computes again.
\<close>

theorem createLayerFamilies_cache:
  "(let (v1, s1) = createLayerFamilies set_layers layers s;
        (v2, s2) = createLayerFamilies set_layers layers s1
    in v2 = v1 \<and> s2 = s1)
   \<and> (cache_wf s \<and> array_ref layers' \<noteq> array_ref layers
        \<and> array_elems layers' = array_elems layers \<longrightarrow>
       (let (v1, s1) = createLayerFamilies set_layers layers s;
            (v3, s3) = createLayerFamilies set_layers layers' s1;
            (v4, s4) = createLayerFamilies set_layers layers s3
        in v1 \<noteq> None
           \<and> workers_constructed s3 = Suc (workers_constructed s1)
           \<and> v3 = Some \<lparr>families_ref = workers_constructed s1,
                         families_value = set_layers (array_elems layers')\<rparr>
           \<and> v3 \<noteq> v1
           \<and> createLayerFamiliesCacheKey s3 = Some (array_ref layers')
           \<and> createLayerFamiliesCacheValue s3 = v3
           \<and> workers_constructed s4 = Suc (workers_constructed s3)
           \<and> v4 \<noteq> v1))"
proof (intro conjI impI)
  show "let (v1, s1) = createLayerFamilies set_layers layers s;
        (v2, s2) = createLayerFamilies set_layers layers s1
    in v2 = v1 \<and> s2 = s1"
    by (simp add: createLayerFamilies_def Let_def)
next
  assume a: "cache_wf s \<and> array_ref layers' \<noteq> array_ref layers
        \<and> array_elems layers' = array_elems layers"
  obtain v1 s1 where c1: "createLayerFamilies set_layers layers s = (v1, s1)"
    by (cases "createLayerFamilies set_layers layers s")
  have k1: "createLayerFamiliesCacheKey s1 = Some (array_ref layers)"
    using createLayerFamilies_key [of set_layers layers s] c1 by simp
  have w1: "cache_wf s1"
    using cache_wf_createLayerFamilies [of s set_layers layers] a c1 by simp
  have val1: "createLayerFamiliesCacheValue s1 = v1"
    using createLayerFamilies_value [of set_layers layers s] c1 by simp
  have lt1: "\<And>v. v1 = Some v \<Longrightarrow> families_ref v < workers_constructed s1"
    using w1 val1 by (simp add: cache_wf_def)
  have some1: "v1 \<noteq> None"
    using w1 val1 k1 by (auto simp add: cache_wf_def split: option.splits)
  have m3: "createLayerFamiliesCacheKey s1 \<noteq> Some (array_ref layers')"
    using k1 a by simp
  obtain v3 s3 where c3: "createLayerFamilies set_layers layers' s1 = (v3, s3)"
    by (cases "createLayerFamilies set_layers layers' s1")
  have v3: "v3 = Some \<lparr>families_ref = workers_constructed s1,
                         families_value = set_layers (array_elems layers')\<rparr>"
    and s3: "s3 = s1\<lparr>workers_constructed := Suc (workers_constructed s1),
        createLayerFamiliesCacheKey := Some (array_ref layers'),
        createLayerFamiliesCacheValue :=
          Some \<lparr>families_ref = workers_constructed s1,
                families_value = set_layers (array_elems layers')\<rparr>\<rparr>"
    using createLayerFamilies_miss [OF m3, of set_layers] c3 by simp_all
  have ne31: "v3 \<noteq> v1" using v3 lt1 by auto
  have m4: "createLayerFamiliesCacheKey s3 \<noteq> Some (array_ref layers)"
    using s3 a by simp
  obtain v4 s4 where c4: "createLayerFamilies set_layers layers s3 = (v4, s4)"
    by (cases "createLayerFamilies set_layers layers s3")
  have v4: "v4 = Some \<lparr>families_ref = workers_constructed s3,
                         families_value = set_layers (array_elems layers)\<rparr>"
    and s4: "workers_constructed s4 = Suc (workers_constructed s3)"
    using createLayerFamilies_miss [OF m4, of set_layers] c4 by simp_all
  have ne41: "v4 \<noteq> v1" using v4 s3 lt1 by auto
  show "let (v1, s1) = createLayerFamilies set_layers layers s;
            (v3, s3) = createLayerFamilies set_layers layers' s1;
            (v4, s4) = createLayerFamilies set_layers layers s3
        in v1 \<noteq> None
           \<and> workers_constructed s3 = Suc (workers_constructed s1)
           \<and> v3 = Some \<lparr>families_ref = workers_constructed s1,
                         families_value = set_layers (array_elems layers')\<rparr>
           \<and> v3 \<noteq> v1
           \<and> createLayerFamiliesCacheKey s3 = Some (array_ref layers')
           \<and> createLayerFamiliesCacheValue s3 = v3
           \<and> workers_constructed s4 = Suc (workers_constructed s3)
           \<and> v4 \<noteq> v1"
    using c1 c3 c4 v3 s3 ne31 s4 ne41 some1 by simp
qed

theorem createLayerFamilies_cache_witness:
  "cache_wf (bench_init :: nat bench_state)
   \<and> array_ref (ex_layers\<lparr>array_ref := 8\<rparr>) \<noteq> array_ref ex_layers
   \<and> array_elems (ex_layers\<lparr>array_ref := 8\<rparr>) = array_elems ex_layers
   \<and> (let (v1, s1) = createLayerFamilies length ex_layers bench_init;
           (v2, s2) = createLayerFamilies length ex_layers s1;
           (v3, s3) = createLayerFamilies length (ex_layers\<lparr>array_ref := 8\<rparr>) s1;
           (v4, s4) = createLayerFamilies length ex_layers s3
       in v1 = Some \<lparr>families_ref = 0, families_value = 2\<rparr>
          \<and> v2 = v1 \<and> s2 = s1 \<and> workers_constructed s1 = 1
          \<and> v3 = Some \<lparr>families_ref = 1, families_value = 2\<rparr>
          \<and> v3 \<noteq> v1
          \<and> workers_constructed s3 = 2
          \<and> createLayerFamiliesCacheKey s3 = Some 8
          \<and> createLayerFamiliesCacheValue s3 = v3
          \<and> workers_constructed s4 = 3
          \<and> v4 \<noteq> v1)"
proof -
  have e: "createLayerFamilies length ex_layers (bench_init :: nat bench_state) =
      (Some \<lparr>families_ref = 0, families_value = 2\<rparr>,
       \<lparr>createLayerFamiliesCacheKey = Some 7,
        createLayerFamiliesCacheValue = Some \<lparr>families_ref = 0, families_value = 2\<rparr>,
        workers_constructed = 1\<rparr>)"
    by (simp add: createLayerFamilies_def bench_init_def ex_layers_def Let_def)
  have r: "array_ref ex_layers = 7 \<and> array_elems ex_layers = [''road'', ''river'']"
    by (simp add: ex_layers_def)
  show ?thesis
    using e r cache_wf_init [where 'a = nat]
      createLayerFamilies_cache [where set_layers = length and layers = ex_layers
        and layers' = "ex_layers\<lparr>array_ref := 8\<rparr>" and s = "bench_init :: nat bench_state"]
    by (simp add: Let_def split: prod.splits)
qed

end
